theory Spec2Isabelle
  imports Complex_Main
begin

section \<open>Numbers, records and the drag session\<close>

text \<open>
  The configurator is TypeScript.  A \<^verbatim>\<open>number\<close> of the source is an IEEE 754 double.  A
  number is modelled by the real it denotes, and the arithmetic of the source by the exact
  operation followed by \<open>double\<close>, the rounding of a real to the nearest number with 53
  significant bits, a tie going to the even one.  A decimal literal of the source such as
  \<^verbatim>\<open>0.05\<close> denotes \<open>double 0.05\<close>.  Comparisons, negation and \<^verbatim>\<open>Math.abs\<close> are exact.  The
  exponent of \<open>double\<close> is not bounded, so overflow to \<^verbatim>\<open>Infinity\<close> (magnitudes from
  \<open>2 ^ 1024\<close>), gradual underflow (magnitudes below \<open>2 ^ -1022\<close>) and \<^verbatim>\<open>NaN\<close> are outside the
  model.

  Rounding is modelled wherever the source decides something from a computed number: the
  division count from a drag distance, the gap chosen for a new element, the value shown
  on a dimension line, the digits printed in the report.  The coordinates of the boxes of
  the derived geometry, from which the source decides nothing, are kept in exact
  arithmetic.

  A division count is an integer-valued \<^verbatim>\<open>number\<close> (the source's own comment calls it
  the "number of divisions") and is modelled as an \<^typ>\<open>int\<close>.

  The types \<^verbatim>\<open>Shelf\<close> and \<^verbatim>\<open>Column\<close> of the source have the same three fields; under
  TypeScript's structural typing they are one type, and so they are here.  The field
  \<^verbatim>\<open>id\<close> is written \<open>id'\<close>.
\<close>

definition roundEven :: "real \<Rightarrow> int" where
  "roundEven m =
     (let f = \<lfloor>m\<rfloor>
      in if m - of_int f < 1 / 2 then f
         else if m - of_int f > 1 / 2 then f + 1
         else if even f then f else f + 1)"

definition double :: "real \<Rightarrow> real" where
  "double x =
     (if x = 0 then 0
      else (let e = \<lfloor>log 2 \<bar>x\<bar>\<rfloor>; ulp = 2 powr (of_int e - 52)
            in sgn x * of_int (roundEven (\<bar>x\<bar> / ulp)) * ulp))"

text \<open>The operators \<^verbatim>\<open>+\<close>, \<^verbatim>\<open>-\<close>, \<^verbatim>\<open>*\<close>, \<^verbatim>\<open>/\<close> and \<^verbatim>\<open>Math.sqrt\<close> on numbers.\<close>

definition fadd :: "real \<Rightarrow> real \<Rightarrow> real" where
  "fadd a b = double (a + b)"

definition fsub :: "real \<Rightarrow> real \<Rightarrow> real" where
  "fsub a b = double (a - b)"

definition fmul :: "real \<Rightarrow> real \<Rightarrow> real" where
  "fmul a b = double (a * b)"

definition fdiv :: "real \<Rightarrow> real \<Rightarrow> real" where
  "fdiv a b = double (a / b)"


record Shelf =
  id' :: string
  position :: real
  divisions :: int

type_synonym Column = Shelf

datatype ViewMode = View3d | ViewOrthographic

datatype Material = wood | white | black | walnut | oak

record ShelvingUnitState =
  width :: real
  height :: real
  depth :: real
  thickness :: real
  shelves :: "Shelf list"
  columns :: "Column list"
  showWireframe :: bool
  showDimensions :: bool
  viewMode :: ViewMode
  material :: Material

text \<open>
  \<^verbatim>\<open>dragStartPosition: Record<string, number>\<close> is a partial map; reading a key that
  was never written gives \<^verbatim>\<open>undefined\<close>, here \<open>None\<close>.
\<close>

type_synonym DragStartPosition = "string \<rightharpoonup> real"

text \<open>
  JavaScript truthiness of a value that is a number or \<^verbatim>\<open>undefined\<close>: \<^verbatim>\<open>undefined\<close>
  and \<open>0\<close> are falsy, every other number is truthy.
\<close>

definition truthy :: "real option \<Rightarrow> bool" where
  "truthy v = (case v of None \<Rightarrow> False | Some x \<Rightarrow> x \<noteq> 0)"

text \<open>\<^verbatim>\<open>a || b\<close> where \<open>a\<close> is a number or \<^verbatim>\<open>undefined\<close> and \<open>b\<close> is a number.\<close>

definition or_else :: "real option \<Rightarrow> real \<Rightarrow> real" where
  "or_else a b = (case a of None \<Rightarrow> b | Some x \<Rightarrow> if x \<noteq> 0 then x else b)"

text \<open>\<^verbatim>\<open>xs.find((s) => s.id === id)\<close>: the first element with that id, if any.\<close>

definition find_by_id :: "Shelf list \<Rightarrow> string \<Rightarrow> Shelf option" where
  "find_by_id xs i = find (\<lambda>s. id' s = i) xs"

section \<open>Drag handlers of the 3D configurator\<close>

text \<open>
  The cascade that both \<^verbatim>\<open>handleShelfDrag\<close> and \<^verbatim>\<open>handleColumnDrag\<close> run on the drag
  distance:
  \<^verbatim>\<open>
  let newDivisions = 1
  if (dragDistance > 0.05) newDivisions = 2
  if (dragDistance > 0.1) newDivisions = 3
  if (dragDistance > 0.15) newDivisions = 4
  if (dragDistance > 0.2) newDivisions = 5
  \<close>
  Each \<^verbatim>\<open>if\<close> overwrites the variable, in the order of the source.  The four literals are
  doubles.
\<close>

definition newDivisions :: "real \<Rightarrow> int" where
  "newDivisions dragDistance =
     (let n = 1;
          n = (if dragDistance > double 0.05 then 2 else n);
          n = (if dragDistance > double 0.1 then 3 else n);
          n = (if dragDistance > double 0.15 then 4 else n);
          n = (if dragDistance > double 0.2 then 5 else n)
      in n)"

text \<open>
  The function passed to \<^verbatim>\<open>prev.shelves.map\<close>.  \<open>dsp\<close> is the session map the handler
  closed over; \<^verbatim>\<open>dragStartPosition[id] || shelf.position\<close> is the baseline, and
  \<^verbatim>\<open>Math.abs(normalizedY - startPos)\<close> the drag distance, a rounded difference.
\<close>

definition startPos :: "DragStartPosition \<Rightarrow> string \<Rightarrow> Shelf \<Rightarrow> real" where
  "startPos dsp i shelf = or_else (dsp i) (position shelf)"

definition dragElement :: "DragStartPosition \<Rightarrow> string \<Rightarrow> real \<Rightarrow> Shelf \<Rightarrow> Shelf" where
  "dragElement dsp i normalized shelf =
     (if id' shelf = i then
        (let dragDistance = \<bar>fsub normalized (startPos dsp i shelf)\<bar>
         in shelf\<lparr>position := normalized, divisions := newDivisions dragDistance\<rparr>)
      else shelf)"

text \<open>
  The first statement of both handlers: when \<^verbatim>\<open>!dragStartPosition[id]\<close>, the entry for
  the id is set to \<^verbatim>\<open>list.find((s) => s.id === id)?.position || 0\<close>.
\<close>

definition recordStart :: "DragStartPosition \<Rightarrow> Shelf list \<Rightarrow> string \<Rightarrow> DragStartPosition" where
  "recordStart dsp xs i =
     (if \<not> truthy (dsp i)
      then dsp(i \<mapsto> or_else (map_option position (find_by_id xs i)) 0)
      else dsp)"

text \<open>
  A handler runs on the state of the render it was created in and queues two updates;
  events are handled one after the other, so that state is the current one.  The handler
  is a function from the pair of states to the pair after both updates.  The session map
  read inside the \<^verbatim>\<open>setUnit\<close> updater is the one of the closure, not the updated one.
  The component \<^verbatim>\<open>ShelvingUnit3D\<close> has the same \<^verbatim>\<open>handleShelfDrag\<close>, on a state without
  columns.
\<close>

definition handleShelfDrag ::
  "DragStartPosition \<times> ShelvingUnitState \<Rightarrow> string \<Rightarrow> real \<Rightarrow> DragStartPosition \<times> ShelvingUnitState" where
  "handleShelfDrag st i normalizedY =
     (let dsp = fst st; unit = snd st
      in (recordStart dsp (shelves unit) i,
          unit\<lparr>shelves := map (dragElement dsp i normalizedY) (shelves unit)\<rparr>))"

definition handleColumnDrag ::
  "DragStartPosition \<times> ShelvingUnitState \<Rightarrow> string \<Rightarrow> real \<Rightarrow> DragStartPosition \<times> ShelvingUnitState" where
  "handleColumnDrag st i normalizedX =
     (let dsp = fst st; unit = snd st
      in (recordStart dsp (columns unit) i,
          unit\<lparr>columns := map (dragElement dsp i normalizedX) (columns unit)\<rparr>))"


text \<open>
  The initial state of \<^verbatim>\<open>ShelvingUnitPro\<close>, with \<^verbatim>\<open>LAYOUTS.basic\<close>.  The thickness enters
  the geometry only and is given by its decimal value.
\<close>

definition basicUnit :: ShelvingUnitState where
  "basicUnit =
     \<lparr>width = 3, height = 2, depth = 1, thickness = 0.05,
      shelves = [\<lparr>id' = ''s1'', position = 0.5, divisions = 2\<rparr>],
      columns = [\<lparr>id' = ''c1'', position = 0.5, divisions = 1\<rparr>],
      showWireframe = False, showDimensions = True,
      viewMode = View3d, material = wood\<rparr>"

section \<open>Divider drag of the 2D designer\<close>

text \<open>
  \<^verbatim>\<open>ShelvingUnitDesigner\<close> keeps dividers instead of shelves and columns.  Its field
  names are suffixed with \<open>D\<close>, since the names \<open>width\<close>, \<open>height\<close> and \<open>position\<close> are
  taken by the records above; the bound variable \<^verbatim>\<open>div\<close> of the source is \<open>dv\<close>.
  \<^verbatim>\<open>handleDividerDrag\<close> computes
  \<^verbatim>\<open>Math.max(0.1, Math.min(0.9, newPosition))\<close>, where the two literals are doubles.
\<close>

datatype DividerType = horizontal | vertical

record Divider =
  idD :: string
  positionD :: real
  typeD :: DividerType

record DesignerState =
  widthD :: real
  heightD :: real
  horizontalDividers :: "Divider list"
  verticalDividers :: "Divider list"

definition handleDividerDrag :: "DesignerState \<Rightarrow> string \<Rightarrow> DividerType \<Rightarrow> real \<Rightarrow> DesignerState" where
  "handleDividerDrag prev i type newPosition =
     (let constrainedPosition = max (double 0.1) (min (double 0.9) newPosition)
      in if type = horizontal then
           prev\<lparr>horizontalDividers :=
             map (\<lambda>dv. if idD dv = i then dv\<lparr>positionD := constrainedPosition\<rparr> else dv)
               (horizontalDividers prev)\<rparr>
         else
           prev\<lparr>verticalDividers :=
             map (\<lambda>dv. if idD dv = i then dv\<lparr>positionD := constrainedPosition\<rparr> else dv)
               (verticalDividers prev)\<rparr>)"

section \<open>Derived geometry of the 3D model\<close>

text \<open>
  A \<^verbatim>\<open><mesh position={p}><boxGeometry args={[x, y, z]} /></mesh>\<close> is a box with edge
  lengths \<open>x\<close>, \<open>y\<close>, \<open>z\<close> centred at \<open>p\<close>; a mesh without a \<^verbatim>\<open>position\<close> is at the origin
  of its parent.  A \<^verbatim>\<open><group position={q}>\<close> translates its children by \<open>q\<close>.  The
  components \<^verbatim>\<open>ShelfWithDivisions\<close> and \<^verbatim>\<open>ColumnWithDivisions\<close> return such a group with
  one main mesh and a list of division meshes.  Materials, wireframe, shadows and the
  drag controls do not enter the geometry and are left out.
\<close>

type_synonym vec3 = "real \<times> real \<times> real"

record Mesh =
  meshPosition :: vec3
  boxArgs :: vec3

record Group =
  groupPosition :: vec3
  mainMesh :: Mesh
  divisionMeshes :: "Mesh list"

definition worldPosition :: "Group \<Rightarrow> Mesh \<Rightarrow> vec3" where
  "worldPosition g m =
     (case (groupPosition g, meshPosition m) of
        ((gx, gy, gz), (mx, my, mz)) \<Rightarrow> (gx + mx, gy + my, gz + mz))"

text \<open>
  The props are written \<open>width'\<close>, \<open>height'\<close>, \<open>depth'\<close> and so on, the plain names being
  the fields of the state record.  The loop
  \<^verbatim>\<open>for (let i = 1; i < divisions; i++)\<close> runs over the integers from 1 to
  \<open>divisions - 1\<close>.
\<close>

definition ShelfWithDivisions :: "real \<Rightarrow> real \<Rightarrow> real \<Rightarrow> vec3 \<Rightarrow> int \<Rightarrow> real \<Rightarrow> Group" where
  "ShelfWithDivisions width' height' depth' position' divisions' thickness' =
     (let divisionThickness = thickness';
          divisionMeshes' =
            (if divisions' > 1 then
               (let divisionWidth = width' / real_of_int divisions'
                in map (\<lambda>i. (let divisionX = - width' / 2 + real_of_int i * divisionWidth
                             in \<lparr>meshPosition = (divisionX, 0, 0),
                                 boxArgs = (divisionThickness, divisionThickness, depth')\<rparr>))
                     [1 .. divisions' - 1])
             else [])
      in \<lparr>groupPosition = position',
          mainMesh = \<lparr>meshPosition = (0, 0, 0), boxArgs = (width', thickness', depth')\<rparr>,
          divisionMeshes = divisionMeshes'\<rparr>)"

definition ColumnWithDivisions :: "real \<Rightarrow> real \<Rightarrow> real \<Rightarrow> vec3 \<Rightarrow> int \<Rightarrow> real \<Rightarrow> Group" where
  "ColumnWithDivisions width' height' depth' position' divisions' thickness' =
     (let divisionThickness = thickness';
          divisionMeshes' =
            (if divisions' > 1 then
               (let divisionHeight = height' / real_of_int divisions'
                in map (\<lambda>i. (let divisionY = - height' / 2 + real_of_int i * divisionHeight
                             in \<lparr>meshPosition = (0, divisionY, 0),
                                 boxArgs = (divisionThickness, divisionThickness, depth')\<rparr>))
                     [1 .. divisions' - 1])
             else [])
      in \<lparr>groupPosition = position',
          mainMesh = \<lparr>meshPosition = (0, 0, 0), boxArgs = (thickness', height', depth')\<rparr>,
          divisionMeshes = divisionMeshes'\<rparr>)"

text \<open>The two lists \<^verbatim>\<open>ShelvingUnitModel\<close> builds from the unit state.\<close>

definition shelfComponents :: "ShelvingUnitState \<Rightarrow> Group list" where
  "shelfComponents unit =
     map (\<lambda>shelf.
            (let yPosition = - height unit / 2 + position shelf * height unit
             in ShelfWithDivisions (width unit - thickness unit * 2) (height unit)
                  (depth unit - thickness unit * 2) (0, yPosition, 0) (divisions shelf)
                  (thickness unit)))
       (shelves unit)"

definition columnComponents :: "ShelvingUnitState \<Rightarrow> Group list" where
  "columnComponents unit =
     map (\<lambda>column.
            (let xPosition = - width unit / 2 + position column * width unit
             in ColumnWithDivisions (width unit) (height unit)
                  (depth unit - thickness unit * 2) (xPosition, 0, 0) (divisions column)
                  (thickness unit)))
       (columns unit)"

section \<open>Inserting a shelf or a column\<close>

text \<open>
  \<^verbatim>\<open>addShelf\<close> and \<^verbatim>\<open>addColumn\<close> run the same search on \<^verbatim>\<open>existingPositions\<close>, the
  positions sorted in ascending order.  \<open>gapStep\<close> is the body of the loop over the gaps
  between neighbours,
  \<^verbatim>\<open>for (let i = 0; i < existingPositions.length - 1; i++)\<close>, on the pair
  \<^verbatim>\<open>(maxGap, gapPosition)\<close>; every index it reads is below the length.  The difference,
  the halving and the sum are operations on doubles.
\<close>

definition gapStep :: "real list \<Rightarrow> real \<times> real \<Rightarrow> nat \<Rightarrow> real \<times> real" where
  "gapStep existingPositions acc i =
     (case acc of (maxGap, gapPosition) \<Rightarrow>
        (let gap = fsub (existingPositions ! (i + 1)) (existingPositions ! i)
         in if gap > maxGap then (gap, fadd (existingPositions ! i) (fdiv gap 2))
            else (maxGap, gapPosition)))"

text \<open>
  The value of \<^verbatim>\<open>newPosition\<close> at the end of the search: 0.5 on the empty list; otherwise
  the gap from 0 to the first position is taken when the first position is above 0, then
  the loop runs, then the gap from the last position to 1 is tried when the last position
  is below 1.
\<close>

definition newPosition :: "real list \<Rightarrow> real" where
  "newPosition existingPositions =
     (if length existingPositions > 0 then
        (let acc = (0, 0.5);
             acc = (if existingPositions ! 0 > 0
                    then (existingPositions ! 0, fdiv (existingPositions ! 0) 2) else acc);
             acc = foldl (gapStep existingPositions) acc [0 ..< length existingPositions - 1];
             acc = (if existingPositions ! (length existingPositions - 1) < 1 then
                      (let gap = fsub 1 (existingPositions ! (length existingPositions - 1))
                       in if gap > fst acc
                          then (gap, fadd (existingPositions ! (length existingPositions - 1))
                                       (fdiv gap 2))
                          else acc)
                    else acc)
         in snd acc)
      else 0.5)"

text \<open>
  The gaps as the specification names them, numbered in scan order: gap 0 is \<open>[0, first]\<close>,
  gap \<open>k\<close> for \<open>0 < k < length xs\<close> is \<open>[xs ! (k - 1), xs ! k]\<close>, and gap \<open>length xs\<close> is
  \<open>[last, 1]\<close>.  Width and midpoint are taken in the arithmetic of the program: the width
  of gap 0 is the first position and its midpoint is half of it; the width of a later
  gap is the difference of its ends, and its midpoint is the lower end plus half of the
  width, each operation giving a double.
\<close>

definition gapLo :: "real list \<Rightarrow> nat \<Rightarrow> real" where
  "gapLo xs k = (if k = 0 then 0 else xs ! (k - 1))"

definition gapHi :: "real list \<Rightarrow> nat \<Rightarrow> real" where
  "gapHi xs k = (if k = length xs then 1 else xs ! k)"

definition gapWidth :: "real list \<Rightarrow> nat \<Rightarrow> real" where
  "gapWidth xs k = (if k = 0 then xs ! 0 else fsub (gapHi xs k) (gapLo xs k))"

definition gapMid :: "real list \<Rightarrow> nat \<Rightarrow> real" where
  "gapMid xs k =
     (if k = 0 then fdiv (xs ! 0) 2 else fadd (gapLo xs k) (fdiv (gapWidth xs k) 2))"

text \<open>
  The decimal digits of a natural number, as JavaScript prints a non-negative integer
  below ten to the power 21 in a template literal.
\<close>

definition digit :: "nat \<Rightarrow> char" where
  "digit d = ''0123456789'' ! d"

fun decimal :: "nat \<Rightarrow> string" where
  "decimal n = (if n < 10 then [digit n] else decimal (n div 10) @ [digit (n mod 10)])"

declare decimal.simps [simp del]

text \<open>
  \<^verbatim>\<open>addShelf\<close> and \<^verbatim>\<open>addColumn\<close>; \<open>now\<close> is the value of \<^verbatim>\<open>Date.now()\<close>.  The sort
  \<^verbatim>\<open>.sort((a, b) => a - b)\<close> is ascending numeric order.
\<close>

definition addShelf :: "nat \<Rightarrow> ShelvingUnitState \<Rightarrow> ShelvingUnitState" where
  "addShelf now unit =
     (let existingPositions = sort (map position (shelves unit));
          newShelf = \<lparr>id' = ''s'' @ decimal now, position = newPosition existingPositions,
                      divisions = 2\<rparr>
      in unit\<lparr>shelves := shelves unit @ [newShelf]\<rparr>)"

definition addColumn :: "nat \<Rightarrow> ShelvingUnitState \<Rightarrow> ShelvingUnitState" where
  "addColumn now unit =
     (let existingPositions = sort (map position (columns unit));
          newColumn = \<lparr>id' = ''c'' @ decimal now, position = newPosition existingPositions,
                       divisions = 2\<rparr>
      in unit\<lparr>columns := columns unit @ [newColumn]\<rparr>)"

text \<open>
  The search seen as one scan: each gap is a candidate (width, midpoint), and a candidate
  replaces the current one only when it is strictly wider.
\<close>

definition keepWider :: "real \<times> real \<Rightarrow> real \<times> real \<Rightarrow> real \<times> real" where
  "keepWider acc c = (if fst c > fst acc then c else acc)"

definition gapCandidates :: "real list \<Rightarrow> (real \<times> real) list" where
  "gapCandidates xs = map (\<lambda>k. (gapWidth xs k, gapMid xs k)) [0 ..< length xs + 1]"

section \<open>Dimension annotations\<close>

text \<open>
  \<^verbatim>\<open>DimensionLine\<close> computes with \<^verbatim>\<open>THREE.Vector3\<close>.  The operations it uses are those of
  three.js: \<^verbatim>\<open>length\<close> is the Euclidean norm, \<^verbatim>\<open>normalize\<close> divides by the length, or by
  1 when the length is 0, \<^verbatim>\<open>distanceTo\<close> is the square root of the sum of the squared
  coordinate differences.  \<^verbatim>\<open>length\<close>, \<^verbatim>\<open>normalize\<close> and \<^verbatim>\<open>add\<close> are suffixed with \<open>V\<close>.
  In three.js:
  \<^verbatim>\<open>
  length() { return Math.sqrt(this.x * this.x + this.y * this.y + this.z * this.z) }
  multiplyScalar(scalar) { this.x *= scalar; this.y *= scalar; this.z *= scalar; return this }
  divideScalar(scalar) { return this.multiplyScalar(1 / scalar) }
  normalize() { return this.divideScalar(this.length() || 1) }
  add(v) { this.x += v.x; this.y += v.y; this.z += v.z; return this }
  distanceTo(v) { return Math.sqrt(this.distanceToSquared(v)) }
  distanceToSquared(v) {
    const dx = this.x - v.x, dy = this.y - v.y, dz = this.z - v.z
    return dx * dx + dy * dy + dz * dz
  }
  \<close>
  Every operation gives a double; a sum of three terms is taken from the left.
  \<^verbatim>\<open>Math.round\<close> gives the nearest integer, a tie going up; it is exact on every double.
\<close>

definition UNIT_TO_MM :: real where
  "UNIT_TO_MM = 1000"






definition Math_round :: "real \<Rightarrow> int" where
  "Math_round x = \<lfloor>x + 1 / 2\<rfloor>"

text \<open>
  An integer-valued number of magnitude below \<open>10 ^ 21\<close> in a template literal: its decimal
  digits, with a sign.
\<close>

definition numberToString :: "int \<Rightarrow> string" where
  "numberToString n = (if n < 0 then ''-'' @ decimal (nat (- n)) else decimal (nat n))"




section \<open>Text export\<close>

text \<open>The line feed, written \<^verbatim>\<open>\n\<close> in the source.\<close>

definition nl :: char where
  "nl = CHR 0x0A"

text \<open>\<^verbatim>\<open>Array.prototype.join\<close> on strings.\<close>

fun join :: "string \<Rightarrow> string list \<Rightarrow> string" where
  "join sep [] = []"
| "join sep [x] = x"
| "join sep (x # y # ys) = x @ sep @ join sep (y # ys)"

text \<open>
  A template literal that spans several rows of the source, each row ending in a line
  break: the rows, each followed by a line feed.
\<close>

definition templateRows :: "string list \<Rightarrow> string" where
  "templateRows rows = concat (map (\<lambda>row. row @ [nl]) rows)"

text \<open>
  \<^verbatim>\<open>Number.prototype.toFixed\<close> with \<open>f\<close> fraction digits, after ECMAScript: the sign is split
  off; a magnitude of at least \<open>10 ^ 21\<close> is printed by the general number-to-string
  conversion, which is a parameter here; otherwise \<open>n\<close> is the integer nearest to
  \<open>x * 10 ^ f\<close> (the larger one on a tie), its digits are padded with zeros to more than
  \<open>f\<close> digits and the point is put before the last \<open>f\<close>.
\<close>

definition toFixedMagnitude :: "(real \<Rightarrow> string) \<Rightarrow> real \<Rightarrow> nat \<Rightarrow> string" where
  "toFixedMagnitude toStringLarge x f =
     (if x \<ge> 10 ^ 21 then toStringLarge x
      else (let n = nat \<lfloor>x * 10 ^ f + 1 / 2\<rfloor>;
                m = decimal n
            in if f \<noteq> 0 then
                 (let k = length m;
                      m = (if k \<le> f then replicate (f + 1 - k) CHR ''0'' @ m else m);
                      k = (if k \<le> f then f + 1 else k)
                  in take (k - f) m @ ''.'' @ drop (k - f) m)
               else m))"

definition toFixed :: "(real \<Rightarrow> string) \<Rightarrow> real \<Rightarrow> nat \<Rightarrow> string" where
  "toFixed toStringLarge x f =
     (if x < 0 then ''-'' @ toFixedMagnitude toStringLarge (- x) f
      else toFixedMagnitude toStringLarge x f)"

text \<open>
  \<^verbatim>\<open>createDesignSpec\<close>.  The rows that \<^verbatim>\<open>shelves.map\<close> and \<^verbatim>\<open>columns.map\<close> produce from
  an element and its index; the parameters of \<open>createDesignSpec\<close> are the fields the
  source takes out of its argument, and \<open>localeString\<close> is the value of
  \<^verbatim>\<open>new Date().toLocaleString()\<close>.
\<close>

definition shelfRow :: "(real \<Rightarrow> string) \<Rightarrow> nat \<times> Shelf \<Rightarrow> string" where
  "shelfRow toStringLarge p =
     (case p of (i, shelf) \<Rightarrow>
        ''Shelf '' @ decimal (i + 1) @ '': Position ''
          @ toFixed toStringLarge (fmul (position shelf) 100) 0 @ ''% from bottom, ''
          @ numberToString (divisions shelf) @ '' divisions'')"

definition columnRow :: "(real \<Rightarrow> string) \<Rightarrow> nat \<times> Column \<Rightarrow> string" where
  "columnRow toStringLarge p =
     (case p of (i, column) \<Rightarrow>
        ''Column '' @ decimal (i + 1) @ '': Position ''
          @ toFixed toStringLarge (fmul (position column) 100) 0 @ ''% from left, ''
          @ numberToString (divisions column) @ '' divisions'')"

definition createDesignSpec ::
  "(real \<Rightarrow> string) \<Rightarrow> string \<Rightarrow> real \<Rightarrow> real \<Rightarrow> real \<Rightarrow> real \<Rightarrow> Shelf list \<Rightarrow> Column list
     \<Rightarrow> string \<Rightarrow> string" where
  "createDesignSpec toStringLarge localeString width' height' depth' thickness' shelves' columns'
       material' =
     templateRows
      [''Shelving Unit Design Specifications'',
       ''============================='',
       '''',
       ''DIMENSIONS'',
       ''Width: '' @ toFixed toStringLarge width' 2 @ '' units'',
       ''Height: '' @ toFixed toStringLarge height' 2 @ '' units'',
       ''Depth: '' @ toFixed toStringLarge depth' 2 @ '' units'',
       ''Material thickness: '' @ toFixed toStringLarge thickness' 2 @ '' units'',
       ''Material: '' @ material',
       '''',
       ''SHELVES ('' @ decimal (length shelves') @ '')'',
       join [nl] (map (shelfRow toStringLarge) (enumerate 0 shelves')),
       '''',
       ''COLUMNS ('' @ decimal (length columns') @ '')'',
       join [nl] (map (columnRow toStringLarge) (enumerate 0 columns')),
       '''',
       ''Generated: '' @ localeString]"

text \<open>
  The lines of a text (the pieces between line feeds), whether a text is a single line,
  and whether a text occurs in another; these are used to state what the report lists.
\<close>

fun splitLines :: "string \<Rightarrow> string list" where
  "splitLines [] = [[]]"
| "splitLines (c # cs) =
     (if c = nl then [] # splitLines cs
      else (case splitLines cs of [] \<Rightarrow> [[c]] | l # ls \<Rightarrow> (c # l) # ls))"

fun isPrefix :: "string \<Rightarrow> string \<Rightarrow> bool" where
  "isPrefix [] ys = True"
| "isPrefix (x # xs) [] = False"
| "isPrefix (x # xs) (y # ys) = (x = y \<and> isPrefix xs ys)"

fun occursIn :: "string \<Rightarrow> string \<Rightarrow> bool" where
  "occursIn p [] = (p = [])"
| "occursIn p (c # cs) = (isPrefix p (c # cs) \<or> occursIn p cs)"

definition oneLine :: "string \<Rightarrow> bool" where
  "oneLine s = (nl \<notin> set s)"

section \<open>Rounding to double\<close>

lemma roundEven_near: "\<bar>m - of_int n\<bar> < 1 / 2 \<Longrightarrow> roundEven m = n"
proof -
  assume a: "\<bar>m - of_int n\<bar> < 1 / 2"
  show ?thesis
  proof (cases "of_int n \<le> m")
    case True
    with a have "\<lfloor>m\<rfloor> = n" by (intro floor_unique) linarith+
    with a True show ?thesis by (simp add: roundEven_def Let_def)
  next
    case False
    with a have f: "\<lfloor>m\<rfloor> = n - 1" by (intro floor_unique) (simp, linarith)+
    from a False have "m - of_int (n - 1) > 1 / 2" by simp
    with f show ?thesis by (simp add: roundEven_def Let_def)
  qed
qed

lemma roundEven_tie:
  "m - of_int n = 1 / 2 \<or> of_int n - m = 1 / 2 \<Longrightarrow> even n \<Longrightarrow> roundEven m = n"
proof -
  assume a: "m - of_int n = 1 / 2 \<or> of_int n - m = 1 / 2" and e: "even n"
  from a show ?thesis
  proof
    assume b: "m - of_int n = 1 / 2"
    then have "\<lfloor>m\<rfloor> = n" by (intro floor_unique) linarith+
    with b e show ?thesis by (simp add: roundEven_def Let_def)
  next
    assume b: "of_int n - m = 1 / 2"
    then have f: "\<lfloor>m\<rfloor> = n - 1" by (intro floor_unique) (simp, linarith)+
    from b have "m - of_int (n - 1) = 1 / 2" by simp
    with f e show ?thesis by (simp add: roundEven_def Let_def)
  qed
qed

lemma roundEven_floor_le: "\<lfloor>m\<rfloor> \<le> roundEven m"
  by (simp add: roundEven_def Let_def)

lemma double_zero: "double 0 = 0"
  by (simp add: double_def)

lemma double_minus: "double (- x) = - double x"
  by (simp add: double_def Let_def)

lemma double_pos:
  assumes "0 < x"
  shows "0 < double x"
proof -
  define e where "e = \<lfloor>log 2 \<bar>x\<bar>\<rfloor>"
  define ulp :: real where "ulp = 2 powr (of_int e - 52)"
  have u: "0 < ulp" by (simp add: ulp_def)
  have "of_int e \<le> log 2 x"
    using assms by (simp add: e_def)
  then have "2 powr (of_int e) \<le> x"
    using assms by (simp add: le_log_iff)
  moreover have "ulp \<le> 2 powr (of_int e)"
    by (simp add: ulp_def)
  ultimately have "ulp \<le> x" by simp
  with u have "1 \<le> x / ulp" by simp
  then have "(1::int) \<le> \<lfloor>x / ulp\<rfloor>" by (simp add: le_floor_iff)
  with roundEven_floor_le [of "x / ulp"] have "0 < roundEven (x / ulp)" by linarith
  with u have "0 < of_int (roundEven (x / ulp)) * ulp"
    by simp
  moreover have "double x = of_int (roundEven (x / ulp)) * ulp"
    using assms by (simp add: double_def Let_def e_def ulp_def)
  ultimately show ?thesis by simp
qed

lemma double_nonpos: "x \<le> 0 \<Longrightarrow> double x \<le> 0"
proof -
  assume "x \<le> 0"
  then consider "x = 0" | "0 < - x" by linarith
  then show ?thesis
  proof cases
    case 1
    then show ?thesis by (simp add: double_zero)
  next
    case 2
    from double_pos [OF 2] show ?thesis by (simp add: double_minus)
  qed
qed

text \<open>The rounding error is at most half a unit in the last place.\<close>

lemma roundEven_error: "\<bar>of_int (roundEven m) - m\<bar> \<le> 1 / 2"
proof -
  have "of_int \<lfloor>m\<rfloor> \<le> m" "m < of_int \<lfloor>m\<rfloor> + 1"
    by linarith+
  then show ?thesis
    unfolding roundEven_def Let_def by (auto simp: abs_le_iff)
qed

lemma double_error: "\<bar>double x - x\<bar> \<le> \<bar>x\<bar> / 2 ^ 53"
proof (cases "x = 0")
  case True
  then show ?thesis by (simp add: double_zero)
next
  case False
  define e where "e = \<lfloor>log 2 \<bar>x\<bar>\<rfloor>"
  define ulp :: real where "ulp = 2 powr (of_int e - 52)"
  define m where "m = \<bar>x\<bar> / ulp"
  have u: "0 < ulp" by (simp add: ulp_def)
  have d: "double x = sgn x * of_int (roundEven m) * ulp"
    using False by (simp add: double_def Let_def e_def ulp_def m_def)
  have x: "x = sgn x * m * ulp"
    using u by (simp add: m_def sgn_mult_abs)
  have "double x - x = sgn x * (of_int (roundEven m) - m) * ulp"
    by (subst (2) x) (simp add: d algebra_simps)
  then have "\<bar>double x - x\<bar> = \<bar>of_int (roundEven m) - m\<bar> * ulp"
    using False u by (simp add: abs_mult abs_sgn_eq)
  also have "\<dots> \<le> 1 / 2 * ulp"
    using roundEven_error [of m] u by (intro mult_right_mono) simp_all
  finally have a: "\<bar>double x - x\<bar> \<le> ulp / 2"
    by simp
  have "of_int e \<le> log 2 \<bar>x\<bar>"
    by (simp add: e_def)
  then have "2 powr (of_int e) \<le> \<bar>x\<bar>"
    using False by (simp add: le_log_iff)
  moreover have "ulp = 2 powr (of_int e) / 2 ^ 52"
    by (simp add: ulp_def powr_diff)
  ultimately have "ulp / 2 \<le> \<bar>x\<bar> / 2 ^ 53"
    by (simp add: field_simps)
  with a show ?thesis by linarith
qed

lemma double_error_bound: "\<bar>x\<bar> \<le> b \<Longrightarrow> \<bar>double x - x\<bar> \<le> b / 2 ^ 53"
proof -
  assume "\<bar>x\<bar> \<le> b"
  then have "\<bar>x\<bar> / 2 ^ 53 \<le> b / 2 ^ 53"
    by (simp add: divide_right_mono)
  with double_error [of x] show ?thesis by linarith
qed

text \<open>
  The value of \<open>double\<close> at a positive number whose multiple by a power of two lies in the
  range of 53-bit integers, and at the square root of such a number.
\<close>

lemma double_scaled:
  fixes s :: nat
  assumes "2 ^ 52 \<le> x * 2 ^ s" and "x * 2 ^ s < 2 ^ 53"
  shows "double x = of_int (roundEven (x * 2 ^ s)) / 2 ^ s"
proof -
  from assms(1) have pos: "0 < x"
    by (smt (verit) mult_nonpos_nonneg zero_le_power zero_less_power)
  have lo: "2 powr (52 - real s) \<le> x"
  proof -
    have "2 powr (52 - real s) = 2 ^ 52 / 2 ^ s"
      by (simp add: powr_diff powr_realpow)
    also have "\<dots> \<le> x"
      using assms(1) by (simp add: field_simps)
    finally show ?thesis .
  qed
  have hi: "x < 2 powr (53 - real s)"
  proof -
    have "x < 2 ^ 53 / 2 ^ s"
      using assms(2) by (simp add: field_simps)
    also have "\<dots> = 2 powr (53 - real s)"
      by (simp add: powr_diff powr_realpow)
    finally show ?thesis .
  qed
  have "\<lfloor>log 2 x\<rfloor> = 52 - int s"
  proof (rule floor_unique)
    show "of_int (52 - int s) \<le> log 2 x"
      using lo pos by (simp add: le_log_iff)
    show "log 2 x < of_int (52 - int s) + 1"
      using hi pos by (simp add: log_less_iff)
  qed
  moreover have "(2::real) powr (of_int (52 - int s) - 52) = 1 / 2 ^ s"
    by (simp add: powr_minus powr_realpow field_simps)
  ultimately show ?thesis
    using pos by (simp add: double_def Let_def)
qed

lemma double_near:
  fixes s :: nat
  assumes "2 ^ 52 \<le> x * 2 ^ s" and "x * 2 ^ s < 2 ^ 53" and "\<bar>x * 2 ^ s - of_int n\<bar> < 1 / 2"
  shows "double x = of_int n / 2 ^ s"
  by (simp add: double_scaled [OF assms(1,2)] roundEven_near [OF assms(3)])

lemma double_tie:
  fixes s :: nat
  assumes "2 ^ 52 \<le> x * 2 ^ s" and "x * 2 ^ s < 2 ^ 53"
    and "x * 2 ^ s - of_int n = 1 / 2 \<or> of_int n - x * 2 ^ s = 1 / 2" and "even n"
  shows "double x = of_int n / 2 ^ s"
  by (simp add: double_scaled [OF assms(1,2)] roundEven_tie [OF assms(3,4)])





section \<open>Division count from drag distance\<close>

text \<open>
  The doubles of the decimal literals that the closed statements about the drag handlers
  use, and the rounded differences that occur there.
\<close>

lemma drag_value_1: "double (45035996273705 / 2251799813685248) = 45035996273705 / 2251799813685248"
  by (rule double_near [where s = 58 and n = 5764607523034240, THEN trans]) simp_all

lemma drag_value_2: "double (3 / 100) = 1080863910568919 / 36028797018963968"
  by (rule double_near [where s = 58 and n = 8646911284551352, THEN trans]) simp_all

lemma drag_value_3: "double (135107988821115 / 4503599627370496) = 135107988821115 / 4503599627370496"
  by (rule double_near [where s = 58 and n = 8646911284551360, THEN trans]) simp_all

lemma drag_value_4: "double (1 / 20) = 3602879701896397 / 72057594037927936"
  by (rule double_near [where s = 57 and n = 7205759403792794, THEN trans]) simp_all

lemma drag_value_5: "double (225179981368525 / 4503599627370496) = 225179981368525 / 4503599627370496"
  by (rule double_near [where s = 57 and n = 7205759403792800, THEN trans]) simp_all

lemma drag_value_6: "double (500001 / 10000000) = 7205773815311601 / 144115188075855872"
  by (rule double_near [where s = 57 and n = 7205773815311601, THEN trans]) simp_all

lemma drag_value_7: "double (900719925474099 / 9007199254740992) = 900719925474099 / 9007199254740992"
  by (rule double_near [where s = 56 and n = 7205759403792792, THEN trans]) simp_all

lemma drag_value_8: "double (1 / 10) = 3602879701896397 / 36028797018963968"
  by (rule double_near [where s = 56 and n = 7205759403792794, THEN trans]) simp_all

lemma drag_value_9: "double (3 / 25) = 1080863910568919 / 9007199254740992"
  by (rule double_near [where s = 56 and n = 8646911284551352, THEN trans]) simp_all

lemma drag_value_10: "double (1170935903116329 / 9007199254740992) = 1170935903116329 / 9007199254740992"
  by (rule double_near [where s = 55 and n = 4683743612465316, THEN trans]) simp_all

lemma drag_value_11: "double (3 / 20) = 5404319552844595 / 36028797018963968"
  by (rule double_near [where s = 55 and n = 5404319552844595, THEN trans]) simp_all

lemma drag_value_12: "double (1351079888211149 / 9007199254740992) = 1351079888211149 / 9007199254740992"
  by (rule double_near [where s = 55 and n = 5404319552844596, THEN trans]) simp_all

lemma drag_value_13: "double (1 / 5) = 3602879701896397 / 18014398509481984"
  by (rule double_near [where s = 55 and n = 7205759403792794, THEN trans]) simp_all

lemma drag_value_14: "double (11499999999999999 / 50000000000000000) = 517913957147607 / 2251799813685248"
  by (rule double_near [where s = 55 and n = 8286623314361712, THEN trans]) simp_all

lemma drag_value_15: "double (517913957147607 / 2251799813685248) = 517913957147607 / 2251799813685248"
  by (rule double_near [where s = 55 and n = 8286623314361712, THEN trans]) simp_all

lemma drag_value_16: "double (23 / 100) = 8286623314361713 / 36028797018963968"
  by (rule double_near [where s = 55 and n = 8286623314361713, THEN trans]) simp_all

lemma drag_value_17: "double (1 / 4) = 1 / 4"
  by (rule double_near [where s = 54 and n = 4503599627370496, THEN trans]) simp_all

lemma drag_value_18: "double (3 / 10) = 5404319552844595 / 18014398509481984"
  by (rule double_near [where s = 54 and n = 5404319552844595, THEN trans]) simp_all

lemma drag_value_19: "double (8 / 25) = 5764607523034235 / 18014398509481984"
  by (rule double_near [where s = 54 and n = 5764607523034235, THEN trans]) simp_all

lemma drag_value_20: "double (5764607523034235 / 18014398509481984) = 5764607523034235 / 18014398509481984"
  by (rule double_near [where s = 54 and n = 5764607523034235, THEN trans]) simp_all

lemma drag_value_21: "double (7 / 20) = 3152519739159347 / 9007199254740992"
  by (rule double_near [where s = 54 and n = 6305039478318694, THEN trans]) simp_all

lemma drag_value_22: "double (11 / 20) = 2476979795053773 / 4503599627370496"
  by (rule double_near [where s = 53 and n = 4953959590107546, THEN trans]) simp_all

lemma drag_value_23: "double (3 / 5) = 5404319552844595 / 9007199254740992"
  by (rule double_near [where s = 53 and n = 5404319552844595, THEN trans]) simp_all

lemma drag_value_24: "double (73 / 100) = 1643813863990231 / 2251799813685248"
  by (rule double_near [where s = 53 and n = 6575255455960924, THEN trans]) simp_all

lemma drag_value_25: "double (19 / 25) = 3422735716801577 / 4503599627370496"
  by (rule double_near [where s = 53 and n = 6845471433603154, THEN trans]) simp_all

lemmas drag_values = double_zero double_minus
  drag_value_1 drag_value_2 drag_value_3 drag_value_4 drag_value_5 drag_value_6
  drag_value_7 drag_value_8 drag_value_9 drag_value_10 drag_value_11 drag_value_12
  drag_value_13 drag_value_14 drag_value_15 drag_value_16 drag_value_17 drag_value_18
  drag_value_19 drag_value_20 drag_value_21 drag_value_22 drag_value_23 drag_value_24
  drag_value_25

lemma threshold_order: "0 < double 0.05 \<and> double 0.05 < double 0.1
    \<and> double 0.1 < double 0.15 \<and> double 0.15 < double 0.2"
  by (simp add: drag_values)

lemma newDivisions_cases:
  "newDivisions d =
     (if d \<le> double 0.05 then 1 else if d \<le> double 0.1 then 2 else if d \<le> double 0.15 then 3
      else if d \<le> double 0.2 then 4 else 5)"
  using threshold_order unfolding newDivisions_def Let_def by auto

lemma newDivisions_mono: "d \<le> e \<Longrightarrow> newDivisions d \<le> newDivisions e"
  using threshold_order unfolding newDivisions_cases by auto

lemma newDivisions_value:
  "newDivisions d =
     (if d \<le> 3602879701896397 / 72057594037927936 then 1
      else if d \<le> 3602879701896397 / 36028797018963968 then 2
      else if d \<le> 5404319552844595 / 36028797018963968 then 3
      else if d \<le> 3602879701896397 / 18014398509481984 then 4 else 5)"
  by (simp add: newDivisions_cases drag_values)

lemma handleShelfDrag_divisions:
  "map divisions (shelves (snd (handleShelfDrag (dsp, u) i y))) =
     map (\<lambda>s. if id' s = i then newDivisions \<bar>double (y - startPos dsp i s)\<bar> else divisions s)
       (shelves u)"
  by (simp add: handleShelfDrag_def dragElement_def fsub_def Let_def)

lemma handleColumnDrag_divisions:
  "map divisions (columns (snd (handleColumnDrag (dsp, u) i x))) =
     map (\<lambda>c. if id' c = i then newDivisions \<bar>double (x - startPos dsp i c)\<bar> else divisions c)
       (columns u)"
  by (simp add: handleColumnDrag_def dragElement_def fsub_def Let_def)

lemma startPos_recorded: "dsp i = Some b \<Longrightarrow> b \<noteq> 0 \<Longrightarrow> startPos dsp i s = b"
  by (simp add: startPos_def or_else_def)

lemma startPos_stored: "dsp i = None \<or> dsp i = Some 0 \<Longrightarrow> startPos dsp i s = position s"
  by (auto simp: startPos_def or_else_def)

lemma handleShelfDrag_first:
  "handleShelfDrag (Map.empty, basicUnit) ''s1'' y =
     (Map.empty(''s1'' \<mapsto> 0.5),
      basicUnit\<lparr>shelves :=
        [\<lparr>id' = ''s1'', position = y, divisions = newDivisions \<bar>double (y - 0.5)\<bar>\<rparr>]\<rparr>)"
  by (simp add: handleShelfDrag_def recordStart_def dragElement_def startPos_def or_else_def
      truthy_def find_by_id_def fsub_def basicUnit_def Let_def)

text \<open>
  Claim C1.  After a drag update of a shelf or of a column, the element with the dragged
  id has the division count \<open>newDivisions d\<close>, where \<open>d\<close> is the absolute value of the
  difference of the incoming position and the baseline, the difference being rounded to
  a double; every other element keeps its count.  The baseline is the entry of the
  session map for the id when that entry is not zero, and the stored position of the
  element when there is no entry or the entry is zero.  The count is fixed by the
  thresholds, which are the doubles of the four literals: \<open>d \<le> 0.05\<close> gives 1,
  \<open>0.05 < d \<le> 0.10\<close> gives 2, \<open>0.10 < d \<le> 0.15\<close> gives 3, \<open>0.15 < d \<le> 0.20\<close> gives 4,
  \<open>d > 0.20\<close> gives 5.  The distance 0.05 itself gives 1.  The count is monotonic in \<open>d\<close>
  and never above 5.
\<close>

theorem drag_divisions_thresholds:
  "map divisions (shelves (snd (handleShelfDrag (dsp, u) i y))) =
     map (\<lambda>s. if id' s = i then newDivisions \<bar>double (y - startPos dsp i s)\<bar> else divisions s)
       (shelves u)
   \<and> map divisions (columns (snd (handleColumnDrag (dsp, u) i y))) =
     map (\<lambda>c. if id' c = i then newDivisions \<bar>double (y - startPos dsp i c)\<bar> else divisions c)
       (columns u)
   \<and> (dsp i = Some b \<and> b \<noteq> 0 \<longrightarrow> startPos dsp i s = b)
   \<and> (dsp i = None \<or> dsp i = Some 0 \<longrightarrow> startPos dsp i s = position s)
   \<and> (d \<le> double 0.05 \<longrightarrow> newDivisions d = 1)
   \<and> (double 0.05 < d \<and> d \<le> double 0.10 \<longrightarrow> newDivisions d = 2)
   \<and> (double 0.10 < d \<and> d \<le> double 0.15 \<longrightarrow> newDivisions d = 3)
   \<and> (double 0.15 < d \<and> d \<le> double 0.20 \<longrightarrow> newDivisions d = 4)
   \<and> (double 0.20 < d \<longrightarrow> newDivisions d = 5)
   \<and> newDivisions (double 0.05) = 1
   \<and> (d \<le> e \<longrightarrow> newDivisions d \<le> newDivisions e)
   \<and> newDivisions d \<le> 5"
proof -
  have thr: "(d \<le> double 0.05 \<longrightarrow> newDivisions d = 1)
      \<and> (double 0.05 < d \<and> d \<le> double 0.10 \<longrightarrow> newDivisions d = 2)
      \<and> (double 0.10 < d \<and> d \<le> double 0.15 \<longrightarrow> newDivisions d = 3)
      \<and> (double 0.15 < d \<and> d \<le> double 0.20 \<longrightarrow> newDivisions d = 4)
      \<and> (double 0.20 < d \<longrightarrow> newDivisions d = 5)"
    using threshold_order unfolding newDivisions_cases by auto
  have edge: "newDivisions (double 0.05) = 1"
    unfolding newDivisions_cases by simp
  have cap: "newDivisions d \<le> 5"
    unfolding newDivisions_cases by simp
  have rec: "dsp i = Some b \<and> b \<noteq> 0 \<longrightarrow> startPos dsp i s = b"
    by (simp add: startPos_recorded)
  have sto: "dsp i = None \<or> dsp i = Some 0 \<longrightarrow> startPos dsp i s = position s"
    using startPos_stored [of dsp i s] by blast
  from thr edge cap rec sto newDivisions_mono [of d e]
    handleShelfDrag_divisions [of dsp u i y] handleColumnDrag_divisions [of dsp u i y]
  show ?thesis by blast
qed

text \<open>
  The thresholds at the values the specification lists (0, 0.05, 0.0500001, 0.10, 0.20,
  0.25 and 1), one value in each open band, and a monotone pair.  On the basic preset,
  whose shelf and column are stored at 0.5: a first sample 0.55 for the shelf has the
  distance 0.050000000000000044 and gives 2 divisions, a first sample 0.35 for the column
  has the distance 0.15000000000000002 and gives 4.  A gesture on the shelf with the
  samples 0.6 and 0.73: the first sample records the baseline 0.5 and stores 0.6, the
  second is measured from the recorded 0.5 and gives 5 divisions, where the distance
  from the stored 0.6 would give 3.
\<close>

theorem drag_divisions_thresholds_witness:
  "newDivisions 0 = 1 \<and> newDivisions (double 0.05) = 1 \<and> newDivisions (double 0.0500001) = 2
   \<and> newDivisions (double 0.10) = 2 \<and> newDivisions (double 0.12) = 3
   \<and> newDivisions (double 0.20) = 4 \<and> newDivisions (double 0.25) = 5 \<and> newDivisions 1 = 5
   \<and> newDivisions 0.07 \<le> newDivisions 0.18
   \<and> map divisions (shelves (snd (handleShelfDrag (Map.empty, basicUnit) ''s1'' (double 0.55))))
      = [2]
   \<and> map divisions (columns (snd (handleColumnDrag (Map.empty, basicUnit) ''c1'' (double 0.35))))
      = [4]
   \<and> (let st1 = handleShelfDrag (Map.empty, basicUnit) ''s1'' (double 0.6);
           st2 = handleShelfDrag st1 ''s1'' (double 0.73)
       in fst st1 ''s1'' = Some 0.5
          \<and> map position (shelves (snd st1)) = [double 0.6]
          \<and> map divisions (shelves (snd st1)) = [2]
          \<and> startPos (fst st1) ''s1'' (hd (shelves (snd st1))) = 0.5
          \<and> map position (shelves (snd st2)) = [double 0.73]
          \<and> map divisions (shelves (snd st2)) = [5])
   \<and> newDivisions \<bar>double (double 0.73 - double 0.6)\<bar> = 3"
proof -
  let ?u1 = "basicUnit\<lparr>shelves := [\<lparr>id' = ''s1'', position = double 0.6, divisions = 2\<rparr>]\<rparr>"
  let ?d1 = "Map.empty(''s1'' \<mapsto> 0.5::real)"
  have a: "newDivisions 0 = 1"
    using drag_divisions_thresholds [where d = 0] threshold_order by simp
  have b: "newDivisions (double 0.05) = 1"
    using drag_divisions_thresholds [where d = 0] by blast
  have c: "newDivisions (double 0.0500001) = 2"
    using drag_divisions_thresholds [where d = "double 0.0500001"] by (simp add: drag_values)
  have d: "newDivisions (double 0.10) = 2"
    using drag_divisions_thresholds [where d = "double 0.10"] by (simp add: drag_values)
  have e: "newDivisions (double 0.12) = 3"
    using drag_divisions_thresholds [where d = "double 0.12"] by (simp add: drag_values)
  have f: "newDivisions (double 0.20) = 4"
    using drag_divisions_thresholds [where d = "double 0.20"] by (simp add: drag_values)
  have g: "newDivisions (double 0.25) = 5"
    using drag_divisions_thresholds [where d = "double 0.25"] by (simp add: drag_values)
  have h: "newDivisions 1 = 5"
    using drag_divisions_thresholds [where d = 1] by (simp add: drag_values)
  have le: "(0.07::real) \<le> 0.18"
    by simp
  have m: "newDivisions 0.07 \<le> newDivisions 0.18"
    using le drag_divisions_thresholds [where dsp = Map.empty and u = basicUnit and i = "''s1''"
        and y = "0.73" and d = "0.07" and e = "0.18"] by blast
  have "map divisions (shelves (snd (handleShelfDrag (Map.empty, basicUnit) ''s1'' (double 0.55))))
      = map (\<lambda>s. if id' s = ''s1''
                  then newDivisions \<bar>double (double 0.55 - startPos Map.empty ''s1'' s)\<bar>
                  else divisions s) (shelves basicUnit)"
    using drag_divisions_thresholds [where dsp = Map.empty and u = basicUnit and i = "''s1''"
        and y = "double 0.55"] by blast
  also have "\<dots> = [2]"
    by (simp add: basicUnit_def startPos_def or_else_def drag_values newDivisions_value)
  finally have v11:
    "map divisions (shelves (snd (handleShelfDrag (Map.empty, basicUnit) ''s1'' (double 0.55))))
       = [2]" .
  have "map divisions (columns (snd (handleColumnDrag (Map.empty, basicUnit) ''c1'' (double 0.35))))
      = map (\<lambda>c. if id' c = ''c1''
                  then newDivisions \<bar>double (double 0.35 - startPos Map.empty ''c1'' c)\<bar>
                  else divisions c) (columns basicUnit)"
    using drag_divisions_thresholds [where dsp = Map.empty and u = basicUnit and i = "''c1''"
        and y = "double 0.35"] by blast
  also have "\<dots> = [4]"
    by (simp add: basicUnit_def startPos_def or_else_def drag_values newDivisions_value)
  finally have v12:
    "map divisions (columns (snd (handleColumnDrag (Map.empty, basicUnit) ''c1'' (double 0.35))))
       = [4]" .
  have n1: "newDivisions \<bar>double (double 0.6 - 0.5)\<bar> = 2"
    by (simp add: drag_values newDivisions_value)
  have st1: "handleShelfDrag (Map.empty, basicUnit) ''s1'' (double 0.6) = (?d1, ?u1)"
    unfolding handleShelfDrag_first n1 ..
  have en: "?d1 ''s1'' = Some 0.5 \<and> (0.5::real) \<noteq> 0"
    by simp
  have base: "startPos ?d1 ''s1'' (hd (shelves ?u1)) = 0.5"
    using en drag_divisions_thresholds [where dsp = ?d1 and i = "''s1''" and b = "0.5"
        and s = "hd (shelves ?u1)"] by blast
  have "map divisions (shelves (snd (handleShelfDrag (?d1, ?u1) ''s1'' (double 0.73))))
      = map (\<lambda>s. if id' s = ''s1''
                  then newDivisions \<bar>double (double 0.73 - startPos ?d1 ''s1'' s)\<bar>
                  else divisions s) (shelves ?u1)"
    using drag_divisions_thresholds [where dsp = ?d1 and u = ?u1 and i = "''s1''"
        and y = "double 0.73"] by blast
  also have "\<dots> = [5]"
    by (simp add: startPos_def or_else_def drag_values newDivisions_value)
  finally have d2: "map divisions (shelves (snd (handleShelfDrag (?d1, ?u1) ''s1'' (double 0.73))))
      = [5]" .
  have p2: "map position (shelves (snd (handleShelfDrag (?d1, ?u1) ''s1'' (double 0.73))))
      = [double 0.73]"
    by (simp add: handleShelfDrag_def dragElement_def Let_def)
  have p1: "map position (shelves ?u1) = [double 0.6] \<and> map divisions (shelves ?u1) = [2]"
    by simp
  have gest: "(let st1 = handleShelfDrag (Map.empty, basicUnit) ''s1'' (double 0.6);
           st2 = handleShelfDrag st1 ''s1'' (double 0.73)
       in fst st1 ''s1'' = Some 0.5
          \<and> map position (shelves (snd st1)) = [double 0.6]
          \<and> map divisions (shelves (snd st1)) = [2]
          \<and> startPos (fst st1) ''s1'' (hd (shelves (snd st1))) = 0.5
          \<and> map position (shelves (snd st2)) = [double 0.73]
          \<and> map divisions (shelves (snd st2)) = [5])"
    unfolding Let_def st1 fst_conv snd_conv
    using en base p1 p2 d2 by blast
  have mut: "newDivisions \<bar>double (double 0.73 - double 0.6)\<bar> = 3"
    by (simp add: drag_values newDivisions_value)
  from a b c d e f g h m v11 v12 gest mut show ?thesis by blast
qed

section \<open>Stored positions\<close>

text \<open>
  The 2D designer constrains a dragged divider to \<open>[0.1, 0.9]\<close>, the bounds being doubles,
  before it stores the position.
\<close>

lemma handleDividerDrag_horizontal:
  "handleDividerDrag st i horizontal p =
     st\<lparr>horizontalDividers :=
       map (\<lambda>dv. if idD dv = i then dv\<lparr>positionD := max (double 0.1) (min (double 0.9) p)\<rparr> else dv)
         (horizontalDividers st)\<rparr>"
  by (simp add: handleDividerDrag_def Let_def)

lemma handleDividerDrag_vertical:
  "handleDividerDrag st i vertical p =
     st\<lparr>verticalDividers :=
       map (\<lambda>dv. if idD dv = i then dv\<lparr>positionD := max (double 0.1) (min (double 0.9) p)\<rparr> else dv)
         (verticalDividers st)\<rparr>"
  by (simp add: handleDividerDrag_def Let_def)

lemma divider_value_1: "double (1 / 10) = 3602879701896397 / 36028797018963968"
  by (rule double_near [where s = 56 and n = 7205759403792794, THEN trans]) simp_all

lemma divider_value_2: "double (9 / 10) = 8106479329266893 / 9007199254740992"
  by (rule double_near [where s = 53 and n = 8106479329266893, THEN trans]) simp_all

lemma constrained_range:
  "double 0.1 \<le> max (double 0.1) (min (double 0.9) p)
   \<and> max (double 0.1) (min (double 0.9) p) \<le> double 0.9"
  by (simp add: max_def min_def divider_value_1 divider_value_2)


lemma handleDividerDrag_constrained:
  assumes "d \<in> set (horizontalDividers (handleDividerDrag st i horizontal p))
             \<or> d \<in> set (verticalDividers (handleDividerDrag st i vertical p))"
    and "idD d = i"
  shows "double 0.1 \<le> positionD d \<and> positionD d \<le> double 0.9"
proof -
  let ?f = "\<lambda>dv. if idD dv = i then dv\<lparr>positionD := max (double 0.1) (min (double 0.9) p)\<rparr> else dv"
  from assms(1) have "d \<in> ?f ` set (horizontalDividers st) \<or> d \<in> ?f ` set (verticalDividers st)"
    by (simp add: handleDividerDrag_horizontal handleDividerDrag_vertical)
  then obtain e where e: "d = ?f e"
    by blast
  show ?thesis
  proof (cases "idD e = i")
    case True
    with e have "positionD d = max (double 0.1) (min (double 0.9) p)" by simp
    with constrained_range [of p] show ?thesis by simp
  next
    case False
    with e assms(2) show ?thesis by simp
  qed
qed

lemma handleShelfDrag_position:
  "map position (shelves (snd (handleShelfDrag (dsp, u) i y))) =
     map (\<lambda>s. if id' s = i then y else position s) (shelves u)"
  by (simp add: handleShelfDrag_def dragElement_def Let_def)

lemma handleColumnDrag_position:
  "map position (columns (snd (handleColumnDrag (dsp, u) i x))) =
     map (\<lambda>c. if id' c = i then x else position c) (columns u)"
  by (simp add: handleColumnDrag_def dragElement_def Let_def)

text \<open>
  Claim C2.  After a drag update every stored shelf and column position should lie in
  \<open>[0, 1]\<close>.  \<^verbatim>\<open>handleShelfDrag\<close> and \<^verbatim>\<open>handleColumnDrag\<close> store the incoming position as
  it is: on the basic preset, a drag update of shelf \<open>s1\<close> to 1.2 stores 1.2, and a drag
  update of column \<open>c1\<close> to \<open>-0.3\<close> stores \<open>-0.3\<close>.
\<close>

theorem drag_stores_position_outside_unit_interval:
  "map position (shelves (snd (handleShelfDrag (Map.empty, basicUnit) ''s1'' 1.2))) = [1.2]
   \<and> map position (columns (snd (handleColumnDrag (Map.empty, basicUnit) ''c1'' (- 0.3)))) = [- 0.3]
   \<and> \<not> (1.2 \<le> (1::real)) \<and> \<not> (0 \<le> (- 0.3::real))"
  by (simp add: handleShelfDrag_position handleColumnDrag_position basicUnit_def)

section \<open>The drag session\<close>


lemma startPos_falsy: "\<not> truthy (dsp i) \<Longrightarrow> startPos dsp i s = position s"
  by (auto simp: startPos_def or_else_def truthy_def split: option.splits)

lemma dragElement_falsy:
  "\<not> truthy (dsp i) \<Longrightarrow>
     dragElement dsp i y =
       (\<lambda>s. if id' s = i then s\<lparr>position := y, divisions := newDivisions \<bar>double (y - position s)\<bar>\<rparr> else s)"
  by (rule ext) (simp add: dragElement_def fsub_def Let_def startPos_falsy)

lemma handleShelfDrag_falsy:
  "\<not> truthy (dsp i) \<Longrightarrow>
     handleShelfDrag (dsp, u) i y =
       (dsp(i \<mapsto> or_else (map_option position (find_by_id (shelves u) i)) 0),
        u\<lparr>shelves := map (\<lambda>s. if id' s = i
               then s\<lparr>position := y, divisions := newDivisions \<bar>double (y - position s)\<bar>\<rparr> else s) (shelves u)\<rparr>)"
  by (simp add: handleShelfDrag_def Let_def recordStart_def dragElement_falsy)

lemma handleColumnDrag_falsy:
  "\<not> truthy (dsp i) \<Longrightarrow>
     handleColumnDrag (dsp, u) i x =
       (dsp(i \<mapsto> or_else (map_option position (find_by_id (columns u) i)) 0),
        u\<lparr>columns := map (\<lambda>c. if id' c = i
               then c\<lparr>position := x, divisions := newDivisions \<bar>double (x - position c)\<bar>\<rparr> else c) (columns u)\<rparr>)"
  by (simp add: handleColumnDrag_def Let_def recordStart_def dragElement_falsy)

lemma truthy_None: "\<not> truthy None"
  by (simp add: truthy_def)

lemma truthy_zero: "\<not> truthy (Some 0)"
  by (simp add: truthy_def)




text \<open>
  Claim C8, as stated: with no recorded baseline the first sample has distance 0 and
  gives 1 division.  On the basic preset, with an empty session map, the first sample
  0.73 for shelf \<open>s1\<close> (stored at 0.5) has distance 0.23 and gives 5 divisions.  With the
  sample as a double, the distance that the handler computes is 0.22999999999999998, and
  the shelf gets 5 divisions as well.
\<close>

theorem lookup_miss_first_sample_counterexample:
  "(Map.empty :: DragStartPosition) ''s1'' = None
   \<and> map position (shelves basicUnit) = [0.5]
   \<and> \<bar>0.73 - startPos Map.empty ''s1'' \<lparr>id' = ''s1'', position = 0.5, divisions = 2\<rparr>\<bar> = 0.23
   \<and> map divisions (shelves (snd (handleShelfDrag (Map.empty, basicUnit) ''s1'' 0.73))) = [5]
   \<and> \<bar>double (double 0.73 - startPos Map.empty ''s1'' \<lparr>id' = ''s1'', position = 0.5, divisions = 2\<rparr>)\<bar>
       = double 0.22999999999999998
   \<and> map divisions (shelves (snd (handleShelfDrag (Map.empty, basicUnit) ''s1'' (double 0.73))))
       = [5]"
  by (simp add: handleShelfDrag_falsy truthy_None basicUnit_def startPos_falsy
      drag_values newDivisions_value)

text \<open>
  Claim C8, amended.  On a drag update for an id with no recorded baseline, the baseline
  is the stored position of the element before the update: the drag distance is the
  absolute value of the difference of the incoming position and that stored position,
  the difference being rounded to a double.  The element gets 1 division exactly when
  this distance is at most the double 0.05, in particular when the sample equals the
  stored position.  The handlers are total functions: the update
  always yields a session map and a unit state.
\<close>

theorem lookup_miss_uses_stored_position:
  assumes "dsp i = None"
  shows "startPos dsp i s = position s
    \<and> shelves (snd (handleShelfDrag (dsp, u) i y)) =
        map (\<lambda>s. if id' s = i
               then s\<lparr>position := y, divisions := newDivisions \<bar>double (y - position s)\<bar>\<rparr> else s) (shelves u)
    \<and> columns (snd (handleColumnDrag (dsp, u) i y)) =
        map (\<lambda>c. if id' c = i
               then c\<lparr>position := y, divisions := newDivisions \<bar>double (y - position c)\<bar>\<rparr> else c) (columns u)
    \<and> (newDivisions \<bar>double (y - startPos dsp i s)\<bar> = 1
          \<longleftrightarrow> \<bar>double (y - position s)\<bar> \<le> double 0.05)
    \<and> (y = position s \<longrightarrow> newDivisions \<bar>double (y - startPos dsp i s)\<bar> = 1)"
proof -
  from assms have f: "\<not> truthy (dsp i)"
    by (simp add: truthy_None)
  have one: "newDivisions \<bar>double (y - position s)\<bar> = 1
      \<longleftrightarrow> \<bar>double (y - position s)\<bar> \<le> double 0.05"
    unfolding newDivisions_cases by simp
  have same: "y = position s \<longrightarrow> newDivisions \<bar>double (y - position s)\<bar> = 1"
    using threshold_order unfolding newDivisions_cases by (simp add: double_zero)
  from f one same show ?thesis
    by (simp add: startPos_falsy handleShelfDrag_falsy handleColumnDrag_falsy)
qed

text \<open>
  On the basic preset with an empty session map: the sample 0.5, equal to the stored
  position, gives 1 division; the sample 0.55 has the distance 0.050000000000000044 from
  the stored 0.5, above the double 0.05, and gives 2 divisions.
\<close>

theorem lookup_miss_uses_stored_position_witness:
  "(Map.empty :: DragStartPosition) ''s1'' = None
   \<and> shelves (snd (handleShelfDrag (Map.empty, basicUnit) ''s1'' 0.5)) =
        [\<lparr>id' = ''s1'', position = 0.5, divisions = 1\<rparr>]
   \<and> columns (snd (handleColumnDrag (Map.empty, basicUnit) ''s1'' 0.5)) =
        [\<lparr>id' = ''c1'', position = 0.5, divisions = 1\<rparr>]
   \<and> newDivisions
        \<bar>double (0.5 - startPos Map.empty ''s1'' \<lparr>id' = ''s1'', position = 0.5, divisions = 2\<rparr>)\<bar> = 1
   \<and> shelves (snd (handleShelfDrag (Map.empty, basicUnit) ''s1'' (double 0.55))) =
        [\<lparr>id' = ''s1'', position = double 0.55, divisions = 2\<rparr>]
   \<and> \<not> \<bar>double (double 0.55 - 0.5)\<bar> \<le> double 0.05"
proof -
  have n: "(Map.empty :: DragStartPosition) ''s1'' = None"
    by simp
  from lookup_miss_uses_stored_position [where dsp = Map.empty and i = "''s1''"
      and u = basicUnit and y = "0.5" and s = "\<lparr>id' = ''s1'', position = 0.5, divisions = 2\<rparr>", OF n]
  have a: "shelves (snd (handleShelfDrag (Map.empty, basicUnit) ''s1'' 0.5)) =
        [\<lparr>id' = ''s1'', position = 0.5, divisions = 1\<rparr>]
   \<and> columns (snd (handleColumnDrag (Map.empty, basicUnit) ''s1'' 0.5)) =
        [\<lparr>id' = ''c1'', position = 0.5, divisions = 1\<rparr>]
   \<and> newDivisions
        \<bar>double (0.5 - startPos Map.empty ''s1'' \<lparr>id' = ''s1'', position = 0.5, divisions = 2\<rparr>)\<bar> = 1"
    by (simp add: basicUnit_def startPos_def or_else_def drag_values newDivisions_value)
  have far: "\<not> \<bar>double (double 0.55 - 0.5)\<bar> \<le> double 0.05"
    by (simp add: drag_values)
  from lookup_miss_uses_stored_position [where dsp = Map.empty and i = "''s1''"
      and u = basicUnit and y = "double 0.55"
      and s = "\<lparr>id' = ''s1'', position = 0.5, divisions = 2\<rparr>", OF n]
  have "shelves (snd (handleShelfDrag (Map.empty, basicUnit) ''s1'' (double 0.55))) =
        map (\<lambda>s. if id' s = ''s1''
               then s\<lparr>position := double 0.55,
                      divisions := newDivisions \<bar>double (double 0.55 - position s)\<bar>\<rparr>
               else s) (shelves basicUnit)"
    by blast
  also have "\<dots> = [\<lparr>id' = ''s1'', position = double 0.55, divisions = 2\<rparr>]"
    by (simp add: basicUnit_def drag_values newDivisions_value)
  finally have b: "shelves (snd (handleShelfDrag (Map.empty, basicUnit) ''s1'' (double 0.55))) =
        [\<lparr>id' = ''s1'', position = double 0.55, divisions = 2\<rparr>]" .
  from n a far b show ?thesis by blast
qed

text \<open>
  Claim C10.  A recorded baseline of 0 is treated like a missing entry.  When the entry
  for the dragged id is 0, both handlers return exactly what they return with the entry
  removed: the entry is recorded again, and the drag distance, a rounded difference, is
  measured from the element's stored position.  When no element of the list has the id,
  the entry that is recorded is 0.
\<close>

theorem zero_baseline_is_missing:
  assumes "dsp i = Some 0"
  shows "handleShelfDrag (dsp, u) i y = handleShelfDrag (dsp(i := None), u) i y
    \<and> handleColumnDrag (dsp, u) i y = handleColumnDrag (dsp(i := None), u) i y
    \<and> startPos dsp i s = position s
    \<and> shelves (snd (handleShelfDrag (dsp, u) i y)) =
        map (\<lambda>s. if id' s = i
               then s\<lparr>position := y, divisions := newDivisions \<bar>double (y - position s)\<bar>\<rparr> else s) (shelves u)
    \<and> columns (snd (handleColumnDrag (dsp, u) i y)) =
        map (\<lambda>c. if id' c = i
               then c\<lparr>position := y, divisions := newDivisions \<bar>double (y - position c)\<bar>\<rparr> else c) (columns u)
    \<and> (find_by_id (shelves u) i = Some s \<longrightarrow>
          fst (handleShelfDrag (dsp, u) i y) i = Some (position s))
    \<and> (find_by_id (shelves u) i = None \<longrightarrow> fst (handleShelfDrag (dsp, u) i y) i = Some 0)
    \<and> (find_by_id (columns u) i = None \<longrightarrow> fst (handleColumnDrag (dsp, u) i y) i = Some 0)"
proof -
  from assms have f: "\<not> truthy (dsp i)"
    by (simp add: truthy_zero)
  have g: "\<not> truthy ((dsp(i := None)) i)"
    by (simp add: truthy_None)
  have upd: "\<And>v. (dsp(i := None))(i \<mapsto> v) = dsp(i \<mapsto> v)"
    by simp
  have sh: "handleShelfDrag (dsp, u) i y = handleShelfDrag (dsp(i := None), u) i y"
    unfolding handleShelfDrag_falsy [where dsp = dsp and i = i, OF f]
      handleShelfDrag_falsy [where dsp = "dsp(i := None)" and i = i, OF g] upd ..
  have co: "handleColumnDrag (dsp, u) i y = handleColumnDrag (dsp(i := None), u) i y"
    unfolding handleColumnDrag_falsy [where dsp = dsp and i = i, OF f]
      handleColumnDrag_falsy [where dsp = "dsp(i := None)" and i = i, OF g] upd ..
  have rest: "startPos dsp i s = position s
    \<and> shelves (snd (handleShelfDrag (dsp, u) i y)) =
        map (\<lambda>s. if id' s = i
               then s\<lparr>position := y, divisions := newDivisions \<bar>double (y - position s)\<bar>\<rparr> else s) (shelves u)
    \<and> columns (snd (handleColumnDrag (dsp, u) i y)) =
        map (\<lambda>c. if id' c = i
               then c\<lparr>position := y, divisions := newDivisions \<bar>double (y - position c)\<bar>\<rparr> else c) (columns u)"
    using f by (simp add: startPos_falsy handleShelfDrag_falsy handleColumnDrag_falsy)
  have rec: "(find_by_id (shelves u) i = Some s \<longrightarrow>
          fst (handleShelfDrag (dsp, u) i y) i = Some (position s))
    \<and> (find_by_id (shelves u) i = None \<longrightarrow> fst (handleShelfDrag (dsp, u) i y) i = Some 0)
    \<and> (find_by_id (columns u) i = None \<longrightarrow> fst (handleColumnDrag (dsp, u) i y) i = Some 0)"
    using f by (simp add: handleShelfDrag_falsy handleColumnDrag_falsy or_else_def)
  from sh co rest rec show ?thesis by blast
qed

text \<open>
  A shelf stored at 0.3 whose gesture started at 0 (entry 0), moved to 0.32, both numbers
  as doubles: the distance is taken from 0.3, it is 0.020000000000000018 and the shelf
  gets 1 division, where a baseline of 0 would give 5.
  The id \<open>zz\<close> is in neither list, and its entry is recorded as 0.
\<close>

theorem zero_baseline_is_missing_witness:
  "(Map.empty(''s1'' \<mapsto> 0 :: real)) ''s1'' = Some 0
   \<and> handleShelfDrag (Map.empty(''s1'' \<mapsto> 0),
         basicUnit\<lparr>shelves := [\<lparr>id' = ''s1'', position = double 0.3, divisions = 5\<rparr>]\<rparr>) ''s1'' (double 0.32)
     = handleShelfDrag (Map.empty,
         basicUnit\<lparr>shelves := [\<lparr>id' = ''s1'', position = double 0.3, divisions = 5\<rparr>]\<rparr>) ''s1'' (double 0.32)
   \<and> shelves (snd (handleShelfDrag (Map.empty(''s1'' \<mapsto> 0),
         basicUnit\<lparr>shelves := [\<lparr>id' = ''s1'', position = double 0.3, divisions = 5\<rparr>]\<rparr>) ''s1'' (double 0.32)))
     = [\<lparr>id' = ''s1'', position = double 0.32, divisions = 1\<rparr>]
   \<and> newDivisions \<bar>double (double 0.32 - 0)\<bar> = 5
   \<and> fst (handleShelfDrag (Map.empty(''s1'' \<mapsto> 0),
         basicUnit\<lparr>shelves := [\<lparr>id' = ''s1'', position = double 0.3, divisions = 5\<rparr>]\<rparr>) ''s1'' (double 0.32)) ''s1''
     = Some (double 0.3)
   \<and> find_by_id (shelves basicUnit) ''zz'' = None
   \<and> fst (handleShelfDrag (Map.empty(''zz'' \<mapsto> 0), basicUnit) ''zz'' (double 0.32)) ''zz'' = Some 0"
proof -
  let ?u = "basicUnit\<lparr>shelves := [\<lparr>id' = ''s1'', position = double 0.3, divisions = 5\<rparr>]\<rparr>"
  let ?s = "\<lparr>id' = ''s1'', position = double 0.3, divisions = 5\<rparr>"
  have z: "(Map.empty(''s1'' \<mapsto> 0 :: real)) ''s1'' = Some 0"
    by simp
  have fs: "find_by_id (shelves ?u) ''s1'' = Some ?s"
    by (simp add: find_by_id_def)
  have e: "(Map.empty(''s1'' \<mapsto> 0 :: real))(''s1'' := None) = Map.empty"
    by simp
  note T = zero_baseline_is_missing [where dsp = "Map.empty(''s1'' \<mapsto> 0)" and i = "''s1''"
      and u = ?u and y = "double 0.32" and s = ?s, OF z]
  from T have "handleShelfDrag (Map.empty(''s1'' \<mapsto> 0), ?u) ''s1'' (double 0.32)
        = handleShelfDrag ((Map.empty(''s1'' \<mapsto> 0))(''s1'' := None), ?u) ''s1'' (double 0.32)"
    by (rule conjunct1)
  then have a1: "handleShelfDrag (Map.empty(''s1'' \<mapsto> 0), ?u) ''s1'' (double 0.32)
        = handleShelfDrag (Map.empty, ?u) ''s1'' (double 0.32)"
    unfolding e .
  from T have "shelves (snd (handleShelfDrag (Map.empty(''s1'' \<mapsto> 0), ?u) ''s1'' (double 0.32))) =
        map (\<lambda>s. if id' s = ''s1''
               then s\<lparr>position := double 0.32, divisions := newDivisions \<bar>double (double 0.32 - position s)\<bar>\<rparr> else s)
          (shelves ?u)"
    by blast
  also have "\<dots> = [\<lparr>id' = ''s1'', position = double 0.32, divisions = 1\<rparr>]"
    by (simp add: drag_values newDivisions_value)
  finally have a2: "shelves (snd (handleShelfDrag (Map.empty(''s1'' \<mapsto> 0), ?u) ''s1'' (double 0.32)))
        = [\<lparr>id' = ''s1'', position = double 0.32, divisions = 1\<rparr>]" .
  from T fs have "fst (handleShelfDrag (Map.empty(''s1'' \<mapsto> 0), ?u) ''s1'' (double 0.32)) ''s1''
        = Some (position ?s)"
    by blast
  then have a3: "fst (handleShelfDrag (Map.empty(''s1'' \<mapsto> 0), ?u) ''s1'' (double 0.32)) ''s1'' = Some (double 0.3)"
    by simp
  note a = a1 a2 a3
  have five: "newDivisions \<bar>double (double 0.32 - 0)\<bar> = 5"
    by (simp add: drag_values newDivisions_value)
  have zz: "(Map.empty(''zz'' \<mapsto> 0 :: real)) ''zz'' = Some 0"
    by simp
  have fz: "find_by_id (shelves basicUnit) ''zz'' = None"
    by (simp add: find_by_id_def basicUnit_def)
  from zero_baseline_is_missing [where dsp = "Map.empty(''zz'' \<mapsto> 0)" and i = "''zz''"
      and u = basicUnit and y = "double 0.32", OF zz] fz
  have b: "fst (handleShelfDrag (Map.empty(''zz'' \<mapsto> 0), basicUnit) ''zz'' (double 0.32)) ''zz'' = Some 0"
    by blast
  from z a five fz b show ?thesis by blast
qed

section \<open>Shelf and column boards\<close>

lemma ShelfWithDivisions_main:
  "groupPosition (ShelfWithDivisions w h d p n t) = p
   \<and> mainMesh (ShelfWithDivisions w h d p n t) = \<lparr>meshPosition = (0, 0, 0), boxArgs = (w, t, d)\<rparr>"
  by (simp add: ShelfWithDivisions_def Let_def)

lemma ShelfWithDivisions_divisions:
  "divisionMeshes (ShelfWithDivisions w h d p n t) =
     map (\<lambda>i. \<lparr>meshPosition = (- w / 2 + real_of_int i * (w / real_of_int n), 0, 0),
                boxArgs = (t, t, d)\<rparr>) [1 .. n - 1]"
  by (simp add: ShelfWithDivisions_def Let_def)

lemma ColumnWithDivisions_main:
  "groupPosition (ColumnWithDivisions w h d p n t) = p
   \<and> mainMesh (ColumnWithDivisions w h d p n t) = \<lparr>meshPosition = (0, 0, 0), boxArgs = (t, h, d)\<rparr>"
  by (simp add: ColumnWithDivisions_def Let_def)

lemma ColumnWithDivisions_divisions:
  "divisionMeshes (ColumnWithDivisions w h d p n t) =
     map (\<lambda>i. \<lparr>meshPosition = (0, - h / 2 + real_of_int i * (h / real_of_int n), 0),
                boxArgs = (t, t, d)\<rparr>) [1 .. n - 1]"
  by (simp add: ColumnWithDivisions_def Let_def)

lemma shelfComponents_nth:
  "i < length (shelves u) \<Longrightarrow>
     shelfComponents u ! i =
       ShelfWithDivisions (width u - 2 * thickness u) (height u) (depth u - 2 * thickness u)
         (0, - height u / 2 + position (shelves u ! i) * height u, 0)
         (divisions (shelves u ! i)) (thickness u)"
  by (simp add: shelfComponents_def Let_def mult.commute)

lemma columnComponents_nth:
  "i < length (columns u) \<Longrightarrow>
     columnComponents u ! i =
       ColumnWithDivisions (width u) (height u) (depth u - 2 * thickness u)
         (- width u / 2 + position (columns u ! i) * width u, 0, 0)
         (divisions (columns u ! i)) (thickness u)"
  by (simp add: columnComponents_def Let_def mult.commute)

text \<open>
  Claim C4, as stated: the division boxes of a shelf are at
  \<open>x = - width / 2 + k * (width / divisions)\<close> with the width of the unit.  For the unit of
  width 3 and thickness 0.05 with one shelf of 3 divisions, the first division box is at
  \<open>x = - 29 / 60\<close>, while \<open>- 3 / 2 + 1 * (3 / 3) = - 1 / 2\<close>.
\<close>

theorem shelf_division_x_counterexample:
  "(let u = basicUnit\<lparr>shelves := [\<lparr>id' = ''s1'', position = 0.5, divisions = 3\<rparr>]\<rparr>;
        g = shelfComponents u ! 0
    in fst (worldPosition g (divisionMeshes g ! 0)) = - 29 / 60
       \<and> - width u / 2 + 1 * (width u / 3) = - 1 / 2
       \<and> fst (worldPosition g (divisionMeshes g ! 0)) \<noteq> - width u / 2 + 1 * (width u / 3))"
  by (simp add: Let_def shelfComponents_def basicUnit_def ShelfWithDivisions_divisions
      ShelfWithDivisions_main worldPosition_def)

text \<open>
  Claim C4, amended.  For every shelf of the unit state, the main board is a box
  \<open>(width - 2 * thickness) \<times> thickness \<times> (depth - 2 * thickness)\<close> at
  \<open>y = - height / 2 + position * height\<close>.  With more than one division there are exactly
  \<open>divisions - 1\<close> division boxes, with none otherwise; the \<open>k\<close>-th one, for \<open>k\<close> from 1 to
  \<open>divisions - 1\<close>, has size \<open>thickness \<times> thickness \<times> (depth - 2 * thickness)\<close> and lies at
  \<open>x = - w / 2 + k * (w / divisions)\<close>, where \<open>w = width - 2 * thickness\<close> is the width of the
  board, not of the unit.
\<close>

theorem shelf_geometry:
  assumes "i < length (shelves u)"
  shows "length (shelfComponents u) = length (shelves u)
    \<and> boxArgs (mainMesh (shelfComponents u ! i))
        = (width u - 2 * thickness u, thickness u, depth u - 2 * thickness u)
    \<and> worldPosition (shelfComponents u ! i) (mainMesh (shelfComponents u ! i))
        = (0, - height u / 2 + position (shelves u ! i) * height u, 0)
    \<and> (1 < divisions (shelves u ! i) \<longrightarrow>
          int (length (divisionMeshes (shelfComponents u ! i))) = divisions (shelves u ! i) - 1)
    \<and> (divisions (shelves u ! i) \<le> 1 \<longrightarrow> divisionMeshes (shelfComponents u ! i) = [])
    \<and> (1 \<le> k \<and> k \<le> divisions (shelves u ! i) - 1 \<longrightarrow>
          boxArgs (divisionMeshes (shelfComponents u ! i) ! nat (k - 1))
            = (thickness u, thickness u, depth u - 2 * thickness u)
          \<and> worldPosition (shelfComponents u ! i) (divisionMeshes (shelfComponents u ! i) ! nat (k - 1))
            = (- (width u - 2 * thickness u) / 2
                 + real_of_int k * ((width u - 2 * thickness u) / real_of_int (divisions (shelves u ! i))),
               - height u / 2 + position (shelves u ! i) * height u, 0))"
proof -
  let ?s = "shelves u ! i"
  let ?g = "shelfComponents u ! i"
  have len: "length (shelfComponents u) = length (shelves u)"
    by (simp add: shelfComponents_def)
  have main: "boxArgs (mainMesh ?g) = (width u - 2 * thickness u, thickness u, depth u - 2 * thickness u)
      \<and> worldPosition ?g (mainMesh ?g) = (0, - height u / 2 + position ?s * height u, 0)"
    using assms
    by (simp add: shelfComponents_nth ShelfWithDivisions_main worldPosition_def)
  have count: "1 < divisions ?s \<longrightarrow> int (length (divisionMeshes ?g)) = divisions ?s - 1"
    using assms
    by (simp add: shelfComponents_nth ShelfWithDivisions_divisions)
  have none: "divisions ?s \<le> 1 \<longrightarrow> divisionMeshes ?g = []"
    using assms
    by (simp add: shelfComponents_nth ShelfWithDivisions_divisions)
  have kth: "1 \<le> k \<and> k \<le> divisions ?s - 1 \<longrightarrow>
          boxArgs (divisionMeshes ?g ! nat (k - 1))
            = (thickness u, thickness u, depth u - 2 * thickness u)
          \<and> worldPosition ?g (divisionMeshes ?g ! nat (k - 1))
            = (- (width u - 2 * thickness u) / 2
                 + real_of_int k * ((width u - 2 * thickness u) / real_of_int (divisions ?s)),
               - height u / 2 + position ?s * height u, 0)"
  proof
    assume k: "1 \<le> k \<and> k \<le> divisions ?s - 1"
    then have idx: "nat (k - 1) < length [1 .. divisions ?s - 1]"
      by simp
    from k have nth: "[1 .. divisions ?s - 1] ! nat (k - 1) = k"
      by simp
    from assms show "boxArgs (divisionMeshes ?g ! nat (k - 1))
            = (thickness u, thickness u, depth u - 2 * thickness u)
          \<and> worldPosition ?g (divisionMeshes ?g ! nat (k - 1))
            = (- (width u - 2 * thickness u) / 2
                 + real_of_int k * ((width u - 2 * thickness u) / real_of_int (divisions ?s)),
               - height u / 2 + position ?s * height u, 0)"
      unfolding shelfComponents_nth [OF assms] ShelfWithDivisions_divisions nth_map [OF idx] nth
      by (simp add: worldPosition_def ShelfWithDivisions_main)
  qed
  from len main count none kth show ?thesis by blast
qed


text \<open>
  The first two shelves of \<^verbatim>\<open>LAYOUTS.bookshelf\<close> in the initial unit: one division at
  0.25, three divisions at 0.5.
\<close>

theorem shelf_geometry_witness:
  "(let u = basicUnit\<lparr>shelves := [\<lparr>id' = ''s1'', position = 0.25, divisions = 1\<rparr>,
                                   \<lparr>id' = ''s2'', position = 0.5, divisions = 3\<rparr>]\<rparr>;
        g = shelfComponents u ! 0; h = shelfComponents u ! 1
    in length (shelves u) = 2 \<and> length (shelfComponents u) = 2
       \<and> divisionMeshes g = []
       \<and> boxArgs (mainMesh h) = (2.9, 0.05, 0.9)
       \<and> worldPosition h (mainMesh h) = (0, 0, 0)
       \<and> length (divisionMeshes h) = 2
       \<and> boxArgs (divisionMeshes h ! 0) = (0.05, 0.05, 0.9)
       \<and> worldPosition h (divisionMeshes h ! 0) = (- 29 / 60, 0, 0)
       \<and> worldPosition h (divisionMeshes h ! 1) = (29 / 60, 0, 0))"
proof -
  define u where "u = basicUnit\<lparr>shelves := [\<lparr>id' = ''s1'', position = 0.25, divisions = 1\<rparr>,
                                   \<lparr>id' = ''s2'', position = 0.5, divisions = 3\<rparr>]\<rparr>"
  have sh: "shelves u = [\<lparr>id' = ''s1'', position = 0.25, divisions = 1\<rparr>,
                         \<lparr>id' = ''s2'', position = 0.5, divisions = 3\<rparr>]"
    and dims: "width u = 3" "height u = 2" "depth u = 1" "thickness u = 0.05"
    by (simp_all add: u_def basicUnit_def)
  have i0: "0 < length (shelves u)" and i1: "1 < length (shelves u)"
    by (simp_all add: sh)
  note A = shelf_geometry [OF i0, where k = 1]
  note B = shelf_geometry [OF i1, where k = 1]
  note C = shelf_geometry [OF i1, where k = 2]
  have len: "length (shelves u) = 2 \<and> length (shelfComponents u) = 2"
    using A by (simp add: sh)
  have g: "divisionMeshes (shelfComponents u ! 0) = []"
    using A by (simp add: sh)
  have h: "boxArgs (mainMesh (shelfComponents u ! 1)) = (2.9, 0.05, 0.9)
       \<and> worldPosition (shelfComponents u ! 1) (mainMesh (shelfComponents u ! 1)) = (0, 0, 0)
       \<and> length (divisionMeshes (shelfComponents u ! 1)) = 2
       \<and> boxArgs (divisionMeshes (shelfComponents u ! 1) ! 0) = (0.05, 0.05, 0.9)
       \<and> worldPosition (shelfComponents u ! 1) (divisionMeshes (shelfComponents u ! 1) ! 0)
           = (- 29 / 60, 0, 0)"
    using B by (simp add: sh dims)
  have h2: "worldPosition (shelfComponents u ! 1) (divisionMeshes (shelfComponents u ! 1) ! 1)
           = (29 / 60, 0, 0)"
    using C by (simp add: sh dims)
  from len g h h2 show ?thesis
    unfolding Let_def u_def by blast
qed

text \<open>
  Claim C5.  For every column of the unit state, the main board is a box
  \<open>thickness \<times> height \<times> (depth - 2 * thickness)\<close> with the full height of the unit, centred
  vertically (\<open>y = 0\<close>) at \<open>x = - width / 2 + position * width\<close>.  Its height differs from
  \<open>height - 2 * thickness\<close> whenever the thickness is not 0.
\<close>

theorem column_geometry:
  assumes "i < length (columns u)"
  shows "length (columnComponents u) = length (columns u)
    \<and> boxArgs (mainMesh (columnComponents u ! i))
        = (thickness u, height u, depth u - 2 * thickness u)
    \<and> worldPosition (columnComponents u ! i) (mainMesh (columnComponents u ! i))
        = (- width u / 2 + position (columns u ! i) * width u, 0, 0)
    \<and> (thickness u \<noteq> 0 \<longrightarrow>
          fst (snd (boxArgs (mainMesh (columnComponents u ! i)))) \<noteq> height u - 2 * thickness u)"
proof -
  have len: "length (columnComponents u) = length (columns u)"
    by (simp add: columnComponents_def)
  have main: "boxArgs (mainMesh (columnComponents u ! i))
        = (thickness u, height u, depth u - 2 * thickness u)
    \<and> worldPosition (columnComponents u ! i) (mainMesh (columnComponents u ! i))
        = (- width u / 2 + position (columns u ! i) * width u, 0, 0)"
    using assms
    by (simp add: columnComponents_nth ColumnWithDivisions_main worldPosition_def)
  then have full: "thickness u \<noteq> 0 \<longrightarrow>
          fst (snd (boxArgs (mainMesh (columnComponents u ! i)))) \<noteq> height u - 2 * thickness u"
    by simp
  from len main full show ?thesis by blast
qed

theorem column_geometry_witness:
  "0 < length (columns basicUnit) \<and> thickness basicUnit \<noteq> 0
   \<and> length (columnComponents basicUnit) = 1
   \<and> boxArgs (mainMesh (columnComponents basicUnit ! 0)) = (0.05, 2, 0.9)
   \<and> worldPosition (columnComponents basicUnit ! 0) (mainMesh (columnComponents basicUnit ! 0))
       = (0, 0, 0)
   \<and> fst (snd (boxArgs (mainMesh (columnComponents basicUnit ! 0)))) \<noteq> 1.9"
proof -
  have i0: "0 < length (columns basicUnit)" and t: "thickness basicUnit \<noteq> 0"
    by (simp_all add: basicUnit_def)
  have dims: "width basicUnit = 3" "height basicUnit = 2" "depth basicUnit = 1"
      "thickness basicUnit = 0.05"
      "columns basicUnit = [\<lparr>id' = ''c1'', position = 0.5, divisions = 1\<rparr>]"
    by (simp_all add: basicUnit_def)
  from column_geometry [OF i0] t
  have "length (columnComponents basicUnit) = 1
   \<and> boxArgs (mainMesh (columnComponents basicUnit ! 0)) = (0.05, 2, 0.9)
   \<and> worldPosition (columnComponents basicUnit ! 0) (mainMesh (columnComponents basicUnit ! 0))
       = (0, 0, 0)
   \<and> fst (snd (boxArgs (mainMesh (columnComponents basicUnit ! 0)))) \<noteq> 1.9"
    by (simp add: dims)
  with i0 t show ?thesis by blast
qed

section \<open>Insertion position\<close>

text \<open>
  The doubles of the decimal literals that the closed statements about the insertion use,
  and the rounded differences, halves and sums that occur there.
\<close>

lemma gap_value_1: "double (900719925474099 / 9007199254740992) = 900719925474099 / 9007199254740992"
  by (rule double_near [where s = 56 and n = 7205759403792792, THEN trans]) simp_all

lemma gap_value_2: "double (3602879701896397 / 36028797018963968) = 3602879701896397 / 36028797018963968"
  by (rule double_near [where s = 56 and n = 7205759403792794, THEN trans]) simp_all

lemma gap_value_3: "double (7926335344172073 / 72057594037927936) = 7926335344172073 / 72057594037927936"
  by (rule double_near [where s = 56 and n = 7926335344172073, THEN trans]) simp_all

lemma gap_value_4: "double (3512807709348987 / 18014398509481984) = 3512807709348987 / 18014398509481984"
  by (rule double_near [where s = 55 and n = 7025615418697974, THEN trans]) simp_all

lemma gap_value_5: "double (900719925474099 / 4503599627370496) = 900719925474099 / 4503599627370496"
  by (rule double_near [where s = 55 and n = 7205759403792792, THEN trans]) simp_all

lemma gap_value_6: "double (7205759403792793 / 36028797018963968) = 7205759403792793 / 36028797018963968"
  by (rule double_near [where s = 55 and n = 7205759403792793, THEN trans]) simp_all

lemma gap_value_7: "double (1 / 5) = 3602879701896397 / 18014398509481984"
  by (rule double_near [where s = 55 and n = 7205759403792794, THEN trans]) simp_all

lemma gap_value_8: "double (3602879701896397 / 18014398509481984) = 3602879701896397 / 18014398509481984"
  by (rule double_near [where s = 55 and n = 7205759403792794, THEN trans]) simp_all

lemma gap_value_9: "double (11 / 50) = 7926335344172073 / 36028797018963968"
  by (rule double_near [where s = 55 and n = 7926335344172073, THEN trans]) simp_all

lemma gap_value_10: "double (1 / 4) = 1 / 4"
  by (rule double_near [where s = 54 and n = 4503599627370496, THEN trans]) simp_all

lemma gap_value_11: "double (1351079888211149 / 4503599627370496) = 1351079888211149 / 4503599627370496"
  by (rule double_near [where s = 54 and n = 5404319552844596, THEN trans]) simp_all

lemma gap_value_12: "double (14051230837395947 / 36028797018963968) = 3512807709348987 / 9007199254740992"
  by (rule double_tie [where s = 54 and n = 7025615418697974, THEN trans]) simp_all

lemma gap_value_13: "double (3512807709348987 / 9007199254740992) = 3512807709348987 / 9007199254740992"
  by (rule double_near [where s = 54 and n = 7025615418697974, THEN trans]) simp_all

lemma gap_value_14: "double (7205759403792793 / 18014398509481984) = 7205759403792793 / 18014398509481984"
  by (rule double_near [where s = 54 and n = 7205759403792793, THEN trans]) simp_all

lemma gap_value_15: "double (14411518807585587 / 36028797018963968) = 3602879701896397 / 9007199254740992"
  by (rule double_tie [where s = 54 and n = 7205759403792794, THEN trans]) simp_all

lemma gap_value_16: "double (2 / 5) = 3602879701896397 / 9007199254740992"
  by (rule double_near [where s = 54 and n = 7205759403792794, THEN trans]) simp_all

lemma gap_value_17: "double (3602879701896397 / 9007199254740992) = 3602879701896397 / 9007199254740992"
  by (rule double_near [where s = 54 and n = 7205759403792794, THEN trans]) simp_all

lemma gap_value_18: "double (83 / 200) = 7475975381435023 / 18014398509481984"
  by (rule double_near [where s = 54 and n = 7475975381435023, THEN trans]) simp_all

lemma gap_value_19: "double (14951950762870047 / 36028797018963968) = 467248461339689 / 1125899906842624"
  by (rule double_tie [where s = 54 and n = 7475975381435024, THEN trans]) simp_all

lemma gap_value_20: "double (10375000000000001 / 25000000000000000) = 467248461339689 / 1125899906842624"
  by (rule double_near [where s = 54 and n = 7475975381435024, THEN trans]) simp_all

lemma gap_value_21: "double (1 / 2) = 1 / 2"
  by (rule double_near [where s = 53 and n = 4503599627370496, THEN trans]) simp_all

lemma gap_value_22: "double (9007199254740993 / 18014398509481984) = 1 / 2"
  by (rule double_tie [where s = 53 and n = 4503599627370496, THEN trans]) simp_all

lemma gap_value_23: "double (3 / 5) = 5404319552844595 / 9007199254740992"
  by (rule double_near [where s = 53 and n = 5404319552844595, THEN trans]) simp_all

lemma gap_value_24: "double (10808639105689191 / 18014398509481984) = 1351079888211149 / 2251799813685248"
  by (rule double_tie [where s = 53 and n = 5404319552844596, THEN trans]) simp_all

lemma gap_value_25: "double (61 / 100) = 5494391545392005 / 9007199254740992"
  by (rule double_near [where s = 53 and n = 5494391545392005, THEN trans]) simp_all

lemma gap_value_26: "double (3 / 4) = 3 / 4"
  by (rule double_near [where s = 53 and n = 6755399441055744, THEN trans]) simp_all

lemma gap_value_27: "double (14411518807585587 / 18014398509481984) = 3602879701896397 / 4503599627370496"
  by (rule double_tie [where s = 53 and n = 7205759403792794, THEN trans]) simp_all

lemma gap_value_28: "double (4 / 5) = 3602879701896397 / 4503599627370496"
  by (rule double_near [where s = 53 and n = 7205759403792794, THEN trans]) simp_all

lemma gap_value_29: "double (14501590800132997 / 18014398509481984) = 3625397700033249 / 4503599627370496"
  by (rule double_tie [where s = 53 and n = 7250795400066498, THEN trans]) simp_all

lemma gap_value_30: "double (161 / 200) = 7250795400066499 / 9007199254740992"
  by (rule double_near [where s = 53 and n = 7250795400066499, THEN trans]) simp_all

lemma gap_value_31: "double (8106479329266893 / 9007199254740992) = 8106479329266893 / 9007199254740992"
  by (rule double_near [where s = 53 and n = 8106479329266893, THEN trans]) simp_all

lemmas gap_values = double_zero double_minus
  gap_value_1 gap_value_2 gap_value_3 gap_value_4 gap_value_5 gap_value_6
  gap_value_7 gap_value_8 gap_value_9 gap_value_10 gap_value_11 gap_value_12
  gap_value_13 gap_value_14 gap_value_15 gap_value_16 gap_value_17 gap_value_18
  gap_value_19 gap_value_20 gap_value_21 gap_value_22 gap_value_23 gap_value_24
  gap_value_25 gap_value_26 gap_value_27 gap_value_28 gap_value_29 gap_value_30
  gap_value_31

lemma keepWider_fst_mono: "fst a \<le> fst (foldl keepWider a cs)"
proof (induction cs arbitrary: a)
  case Nil
  show ?case by simp
next
  case (Cons c cs)
  have "fst a \<le> fst (keepWider a c)"
    by (simp add: keepWider_def)
  also have "\<dots> \<le> fst (foldl keepWider (keepWider a c) cs)"
    by (rule Cons.IH)
  finally show ?case by simp
qed

lemma snoc_new_max:
  assumes "\<forall>j < length cs. fst (cs ! j) \<le> (m::real)" and "m < fst c"
  shows "(\<forall>j < length (cs @ [c]). fst ((cs @ [c]) ! j) \<le> fst ((cs @ [c]) ! length cs))
    \<and> (\<forall>j < length cs. fst ((cs @ [c]) ! j) < fst ((cs @ [c]) ! length cs))"
proof -
  have below: "fst (cs ! j) < fst c" if "j < length cs" for j
  proof -
    from assms(1) that have "fst (cs ! j) \<le> m" by simp
    with assms(2) show ?thesis by simp
  qed
  have "fst ((cs @ [c]) ! j) \<le> fst ((cs @ [c]) ! length cs)" if "j < length (cs @ [c])" for j
  proof (cases "j < length cs")
    case True
    with below [of j] show ?thesis by (simp add: nth_append)
  next
    case False
    with that have "j = length cs" by simp
    then show ?thesis by simp
  qed
  moreover have "fst ((cs @ [c]) ! j) < fst ((cs @ [c]) ! length cs)" if "j < length cs" for j
    using below [OF that] that by (simp add: nth_append)
  ultimately show ?thesis by blast
qed

lemma snoc_old_max:
  assumes "k < length cs" and "\<forall>j < length cs. fst (cs ! j) \<le> fst (cs ! k)"
    and "\<forall>j < k. fst (cs ! j) < fst (cs ! k)" and "\<not> fst (cs ! k) < fst (c::real \<times> 'b)"
  shows "(\<forall>j < length (cs @ [c]). fst ((cs @ [c]) ! j) \<le> fst ((cs @ [c]) ! k))
    \<and> (\<forall>j < k. fst ((cs @ [c]) ! j) < fst ((cs @ [c]) ! k))"
proof -
  have "fst ((cs @ [c]) ! j) \<le> fst ((cs @ [c]) ! k)" if "j < length (cs @ [c])" for j
  proof (cases "j < length cs")
    case True
    with assms(1,2) show ?thesis by (simp add: nth_append)
  next
    case False
    with that have "j = length cs" by simp
    with assms(1,4) show ?thesis by (simp add: nth_append)
  qed
  moreover have "fst ((cs @ [c]) ! j) < fst ((cs @ [c]) ! k)" if "j < k" for j
    using assms(1,3) that by (simp add: nth_append)
  ultimately show ?thesis by blast
qed

lemma keepWider_first_max:
  "(if \<exists>c \<in> set cs. fst a < fst c
    then \<exists>k < length cs. foldl keepWider a cs = cs ! k
           \<and> fst a < fst (cs ! k)
           \<and> (\<forall>j < length cs. fst (cs ! j) \<le> fst (cs ! k))
           \<and> (\<forall>j < k. fst (cs ! j) < fst (cs ! k))
    else foldl keepWider a cs = a)"
proof (induction cs rule: rev_induct)
  case Nil
  show ?case by simp
next
  case (snoc c cs)
  show ?case
  proof (cases "\<exists>c \<in> set cs. fst a < fst c")
    case True
    with snoc obtain k where k: "k < length cs" "foldl keepWider a cs = cs ! k"
        "fst a < fst (cs ! k)"
        "\<forall>j < length cs. fst (cs ! j) \<le> fst (cs ! k)" "\<forall>j < k. fst (cs ! j) < fst (cs ! k)"
      by auto
    from True have ex: "\<exists>d \<in> set (cs @ [c]). fst a < fst d"
      by auto
    show ?thesis
    proof (cases "fst (cs ! k) < fst c")
      case True
      have "foldl keepWider a (cs @ [c]) = (cs @ [c]) ! length cs"
        using k(2) True by (simp add: keepWider_def)
      moreover have "fst a < fst ((cs @ [c]) ! length cs)"
        using k(3) True by simp
      moreover note snoc_new_max [OF k(4) True]
      ultimately have "\<exists>k < length (cs @ [c]). foldl keepWider a (cs @ [c]) = (cs @ [c]) ! k
           \<and> fst a < fst ((cs @ [c]) ! k)
           \<and> (\<forall>j < length (cs @ [c]). fst ((cs @ [c]) ! j) \<le> fst ((cs @ [c]) ! k))
           \<and> (\<forall>j < k. fst ((cs @ [c]) ! j) < fst ((cs @ [c]) ! k))"
        by (intro exI [of _ "length cs"]) simp
      with ex show ?thesis by simp
    next
      case False
      have "foldl keepWider a (cs @ [c]) = (cs @ [c]) ! k"
        using k(1,2) False by (simp add: keepWider_def nth_append)
      moreover have "fst a < fst ((cs @ [c]) ! k)"
        using k(1,3) by (simp add: nth_append)
      moreover note snoc_old_max [OF k(1,4,5) False]
      ultimately have "\<exists>k < length (cs @ [c]). foldl keepWider a (cs @ [c]) = (cs @ [c]) ! k
           \<and> fst a < fst ((cs @ [c]) ! k)
           \<and> (\<forall>j < length (cs @ [c]). fst ((cs @ [c]) ! j) \<le> fst ((cs @ [c]) ! k))
           \<and> (\<forall>j < k. fst ((cs @ [c]) ! j) < fst ((cs @ [c]) ! k))"
        using k(1) by (intro exI [of _ k]) simp
      with ex show ?thesis by simp
    qed
  next
    case False
    with snoc have acc: "foldl keepWider a cs = a"
      by simp
    from False have small: "\<forall>j < length cs. fst (cs ! j) \<le> fst a"
      by (auto simp: not_less)
    show ?thesis
    proof (cases "fst a < fst c")
      case True
      then have ex: "\<exists>d \<in> set (cs @ [c]). fst a < fst d"
        by simp
      have "foldl keepWider a (cs @ [c]) = (cs @ [c]) ! length cs"
        using acc True by (simp add: keepWider_def)
      moreover have "fst a < fst ((cs @ [c]) ! length cs)"
        using True by simp
      moreover note snoc_new_max [OF small True]
      ultimately have "\<exists>k < length (cs @ [c]). foldl keepWider a (cs @ [c]) = (cs @ [c]) ! k
           \<and> fst a < fst ((cs @ [c]) ! k)
           \<and> (\<forall>j < length (cs @ [c]). fst ((cs @ [c]) ! j) \<le> fst ((cs @ [c]) ! k))
           \<and> (\<forall>j < k. fst ((cs @ [c]) ! j) < fst ((cs @ [c]) ! k))"
        by (intro exI [of _ "length cs"]) simp
      with ex show ?thesis by simp
    next
      case no: False
      with False have "\<not> (\<exists>d \<in> set (cs @ [c]). fst a < fst d)"
        by auto
      moreover have "foldl keepWider a (cs @ [c]) = a"
        using acc no by (simp add: keepWider_def)
      ultimately show ?thesis by simp
    qed
  qed
qed


lemma gapCandidates_nth:
  "k \<le> length xs \<Longrightarrow> gapCandidates xs ! k = (gapWidth xs k, gapMid xs k)"
  unfolding gapCandidates_def by (simp add: nth_map_upt less_Suc_eq_le del: upt_Suc)

lemma gapCandidates_length: "length (gapCandidates xs) = length xs + 1"
  by (simp add: gapCandidates_def del: upt_Suc)

lemma gapStep_keepWider:
  "i + 1 < length xs \<Longrightarrow> gapStep xs acc i = keepWider acc (gapCandidates xs ! (i + 1))"
  by (cases acc)
     (simp add: gapStep_def keepWider_def gapCandidates_nth gapWidth_def gapMid_def gapLo_def
        gapHi_def Let_def)

lemma foldl_gapStep:
  "foldl (gapStep xs) a [0 ..< length xs - 1] =
     foldl keepWider a (map (\<lambda>i. gapCandidates xs ! (i + 1)) [0 ..< length xs - 1])"
  unfolding foldl_map
  by (rule foldl_cong) (simp_all add: gapStep_keepWider)

lemma gapCandidates_split:
  assumes "xs \<noteq> []"
  shows "gapCandidates xs =
     gapCandidates xs ! 0 # map (\<lambda>i. gapCandidates xs ! (i + 1)) [0 ..< length xs - 1]
       @ [gapCandidates xs ! length xs]"
proof (rule nth_equalityI)
  from assms show "length (gapCandidates xs) =
      length (gapCandidates xs ! 0 # map (\<lambda>i. gapCandidates xs ! (i + 1)) [0 ..< length xs - 1]
        @ [gapCandidates xs ! length xs])"
    by (cases xs) (simp_all add: gapCandidates_length)
next
  fix j
  assume "j < length (gapCandidates xs)"
  then have j: "j \<le> length xs"
    by (simp add: gapCandidates_length)
  consider "j = 0" | "0 < j" "j < length xs" | "0 < j" "j = length xs"
    using j by linarith
  then show "gapCandidates xs ! j =
      (gapCandidates xs ! 0 # map (\<lambda>i. gapCandidates xs ! (i + 1)) [0 ..< length xs - 1]
        @ [gapCandidates xs ! length xs]) ! j"
  proof cases
    case 1
    then show ?thesis by simp
  next
    case 2
    then have "j - 1 < length xs - 1" by linarith
    with 2 show ?thesis by (simp add: nth_Cons' nth_append)
  next
    case 3
    then show ?thesis by (simp add: nth_Cons' nth_append)
  qed
qed

lemma newPosition_scan:
  assumes "xs \<noteq> []"
  shows "newPosition xs = snd (foldl keepWider (0, 1 / 2) (gapCandidates xs))"
proof -
  let ?n = "length xs"
  let ?mid = "map (\<lambda>i. gapCandidates xs ! (i + 1)) [0 ..< ?n - 1]"
  define a0 :: "real \<times> real"
    where "a0 = (if xs ! 0 > 0 then (xs ! 0, fdiv (xs ! 0) 2) else (0, 0.5))"
  define a1 where "a1 = foldl (gapStep xs) a0 [0 ..< ?n - 1]"
  define a2 where "a2 =
     (if xs ! (?n - 1) < 1 then
        (let gap = fsub 1 (xs ! (?n - 1))
         in if gap > fst a1 then (gap, fadd (xs ! (?n - 1)) (fdiv gap 2)) else a1)
      else a1)"
  from assms have n: "0 < ?n" by simp
  have np: "newPosition xs = snd a2"
    using n by (simp add: newPosition_def Let_def a0_def a1_def a2_def)
  have first: "a0 = keepWider (0, 1 / 2) (gapCandidates xs ! 0)"
    using n by (simp add: a0_def keepWider_def gapCandidates_nth gapWidth_def gapMid_def)
  have mid: "a1 = foldl keepWider a0 ?mid"
    unfolding a1_def foldl_gapStep ..
  have "fst (0::real, 1 / 2::real) \<le> fst a0"
    unfolding first using keepWider_fst_mono [of "(0, 1 / 2)" "[gapCandidates xs ! 0]"] by simp
  also have "\<dots> \<le> fst a1"
    unfolding mid by (rule keepWider_fst_mono)
  finally have nonneg: "0 \<le> fst a1" by simp
  have wn: "gapWidth xs ?n = fsub 1 (xs ! (?n - 1))"
    and mn: "gapMid xs ?n = fadd (xs ! (?n - 1)) (fdiv (fsub 1 (xs ! (?n - 1))) 2)"
    using n by (simp_all add: gapWidth_def gapMid_def gapLo_def gapHi_def)
  have last: "a2 = keepWider a1 (gapCandidates xs ! ?n)"
  proof (cases "xs ! (?n - 1) < 1")
    case True
    then show ?thesis
      by (simp add: a2_def keepWider_def gapCandidates_nth wn mn Let_def)
  next
    case False
    then have "fsub 1 (xs ! (?n - 1)) \<le> 0"
      unfolding fsub_def by (intro double_nonpos) simp
    with nonneg have "\<not> fst a1 < fsub 1 (xs ! (?n - 1))"
      by simp
    with False show ?thesis
      by (simp add: a2_def keepWider_def gapCandidates_nth wn)
  qed
  have "a2 = foldl keepWider (0, 1 / 2) (gapCandidates xs ! 0 # ?mid @ [gapCandidates xs ! ?n])"
    by (simp add: last mid first)
  also have "gapCandidates xs ! 0 # ?mid @ [gapCandidates xs ! ?n] = gapCandidates xs"
    using gapCandidates_split [OF assms] by simp
  finally show ?thesis
    by (simp add: np)
qed

text \<open>
  A rounded difference is positive exactly when the difference is, so some gap has a
  width above 0: otherwise the positions would descend from at most 0 to at least 1.
\<close>

lemma descending_from_first:
  assumes "\<forall>i. i + 1 < length xs \<longrightarrow> xs ! (i + 1) \<le> (xs ! i :: real)"
  shows "j < length xs \<Longrightarrow> xs ! j \<le> xs ! 0"
proof (induction j)
  case 0
  show ?case by simp
next
  case (Suc j)
  from Suc.prems assms have "xs ! (j + 1) \<le> xs ! j" by simp
  moreover from Suc have "xs ! j \<le> xs ! 0" by simp
  ultimately show ?case by simp
qed

lemma some_gap_positive:
  assumes "xs \<noteq> []"
  shows "\<exists>k \<le> length xs. 0 < gapWidth xs k"
proof (rule ccontr)
  assume "\<not> (\<exists>k \<le> length xs. 0 < gapWidth xs k)"
  then have none: "\<And>k. k \<le> length xs \<Longrightarrow> gapWidth xs k \<le> 0"
    by (auto simp: not_less)
  from assms have n: "0 < length xs" by simp
  have first: "xs ! 0 \<le> 0"
    using none [of 0] by (simp add: gapWidth_def)
  have "\<not> 0 < double (1 - xs ! (length xs - 1))"
    using none [of "length xs"] n by (simp add: gapWidth_def gapLo_def gapHi_def fsub_def)
  with double_pos [of "1 - xs ! (length xs - 1)"] have last: "1 \<le> xs ! (length xs - 1)"
    by fastforce
  have "\<forall>i. i + 1 < length xs \<longrightarrow> xs ! (i + 1) \<le> xs ! i"
  proof (intro allI impI)
    fix i
    assume i: "i + 1 < length xs"
    with none [of "i + 1"] have "\<not> 0 < double (xs ! (i + 1) - xs ! i)"
      by (simp add: gapWidth_def gapLo_def gapHi_def fsub_def)
    with double_pos [of "xs ! (i + 1) - xs ! i"] show "xs ! (i + 1) \<le> xs ! i"
      by fastforce
  qed
  from descending_from_first [OF this, of "length xs - 1"] n
  have "xs ! (length xs - 1) \<le> xs ! 0" by simp
  with first last show False by simp
qed

lemma newPosition_first_widest:
  assumes "xs \<noteq> []"
  shows "\<exists>k \<le> length xs. newPosition xs = gapMid xs k
           \<and> (\<forall>j \<le> length xs. gapWidth xs j \<le> gapWidth xs k)
           \<and> (\<forall>j < k. gapWidth xs j < gapWidth xs k)"
proof -
  let ?cs = "gapCandidates xs"
  from some_gap_positive [OF assms] obtain k0 where k0: "k0 \<le> length xs" "0 < gapWidth xs k0"
    by blast
  have "?cs ! k0 \<in> set ?cs"
    by (rule nth_mem) (simp add: gapCandidates_length k0(1) less_Suc_eq_le)
  moreover from k0 have "fst (0::real, 1 / 2::real) < fst (?cs ! k0)"
    by (simp add: gapCandidates_nth)
  ultimately have "\<exists>c \<in> set ?cs. fst (0::real, 1 / 2::real) < fst c"
    by blast
  with keepWider_first_max [of ?cs "(0, 1 / 2)"]
  obtain k where k: "k < length ?cs" "foldl keepWider (0, 1 / 2) ?cs = ?cs ! k"
      "\<forall>j < length ?cs. fst (?cs ! j) \<le> fst (?cs ! k)" "\<forall>j < k. fst (?cs ! j) < fst (?cs ! k)"
    by auto
  from k(1) have kn: "k \<le> length xs"
    by (simp add: gapCandidates_length)
  have "newPosition xs = gapMid xs k"
    using k(2) kn
    by (simp add: newPosition_scan [OF assms] gapCandidates_nth)
  moreover have "\<forall>j \<le> length xs. gapWidth xs j \<le> gapWidth xs k"
  proof (intro allI impI)
    fix j assume j: "j \<le> length xs"
    with k(3) have "fst (?cs ! j) \<le> fst (?cs ! k)"
      by (simp add: gapCandidates_length)
    with j kn show "gapWidth xs j \<le> gapWidth xs k"
      by (simp add: gapCandidates_nth)
  qed
  moreover have "\<forall>j < k. gapWidth xs j < gapWidth xs k"
  proof (intro allI impI)
    fix j assume j: "j < k"
    with k(4) have "fst (?cs ! j) < fst (?cs ! k)"
      by simp
    with j kn show "gapWidth xs j < gapWidth xs k"
      by (simp add: gapCandidates_nth)
  qed
  ultimately show ?thesis using kn by blast
qed


text \<open>
  For sorted positions in \<open>[0, 1]\<close> every computed width is within \<open>2 ^ -53\<close> of the difference of
  the ends of its gap, and every computed midpoint within \<open>2 ^ -51\<close> of the midpoint of its
  gap.
\<close>

lemma gap_ends:
  assumes "sorted xs" and "\<forall>x \<in> set xs. 0 \<le> x \<and> x \<le> 1" and "k \<le> length xs"
  shows "0 \<le> gapLo xs k \<and> gapLo xs k \<le> gapHi xs k \<and> gapHi xs k \<le> 1"
proof -
  have r: "0 \<le> xs ! j \<and> xs ! j \<le> 1" if "j < length xs" for j
    using assms(2) that by simp
  consider "k = 0" "k = length xs" | "k = 0" "k < length xs" | "0 < k" "k < length xs"
    | "0 < k" "k = length xs"
    using assms(3) by linarith
  then show ?thesis
  proof cases
    case 1
    then show ?thesis by (simp add: gapLo_def gapHi_def)
  next
    case 2
    with r [of 0] show ?thesis by (simp add: gapLo_def gapHi_def)
  next
    case 3
    then have "xs ! (k - 1) \<le> xs ! k"
      using assms(1) by (intro sorted_nth_mono) simp_all
    with 3 r [of "k - 1"] r [of k] show ?thesis by (simp add: gapLo_def gapHi_def)
  next
    case 4
    with r [of "k - 1"] show ?thesis by (simp add: gapLo_def gapHi_def)
  qed
qed

lemma gapWidth_error:
  assumes "sorted xs" and "\<forall>x \<in> set xs. 0 \<le> x \<and> x \<le> 1" and "k \<le> length xs" and "xs \<noteq> []"
  shows "\<bar>gapWidth xs k - (gapHi xs k - gapLo xs k)\<bar> \<le> 1 / 2 ^ 53"
proof (cases "k = 0")
  case True
  with assms(4) show ?thesis by (simp add: gapWidth_def gapLo_def gapHi_def)
next
  case False
  from gap_ends [OF assms(1-3)] have "\<bar>gapHi xs k - gapLo xs k\<bar> \<le> 1"
    by linarith
  from double_error_bound [OF this] False show ?thesis
    by (simp add: gapWidth_def fsub_def)
qed

lemma gapMid_error:
  assumes "sorted xs" and "\<forall>x \<in> set xs. 0 \<le> x \<and> x \<le> 1" and "k \<le> length xs" and "xs \<noteq> []"
  shows "\<bar>gapMid xs k - (gapLo xs k + gapHi xs k) / 2\<bar> \<le> 1 / 2 ^ 51"
proof (cases "k = 0")
  case True
  from gap_ends [OF assms(1-3)] True assms(4) have "\<bar>xs ! 0 / 2\<bar> \<le> 1"
    by (simp add: gapLo_def gapHi_def)
  from double_error_bound [OF this] have "\<bar>double (xs ! 0 / 2) - xs ! 0 / 2\<bar> \<le> 1 / 2 ^ 53" .
  moreover have "(1::real) / 2 ^ 53 \<le> 1 / 2 ^ 51"
    by simp
  ultimately have "\<bar>double (xs ! 0 / 2) - xs ! 0 / 2\<bar> \<le> 1 / 2 ^ 51"
    by (rule order_trans)
  then show ?thesis
    using True assms(4) by (simp add: gapMid_def fdiv_def gapLo_def gapHi_def)
next
  case False
  define lo hi w h where "lo = gapLo xs k" and "hi = gapHi xs k" and "w = gapWidth xs k"
    and "h = double (w / 2)"
  define u :: real where "u = 1 / 2 ^ 53"
  have u: "0 \<le> u" "u \<le> 1 / 4" "1 / 2 ^ 51 = 4 * u" "2 / 2 ^ 53 = 2 * u"
    by (simp_all add: u_def)
  from gap_ends [OF assms(1-3)] have e: "0 \<le> lo" "lo \<le> hi" "hi \<le> 1"
    by (simp_all add: lo_def hi_def)
  from gapWidth_error [OF assms] have we: "\<bar>w - (hi - lo)\<bar> \<le> u"
    by (simp only: w_def lo_def hi_def u_def)
  with e u have "\<bar>w / 2\<bar> \<le> 1"
    by linarith
  from double_error_bound [OF this] have he: "\<bar>h - w / 2\<bar> \<le> u"
    by (simp only: h_def u_def)
  with we e u have "\<bar>lo + h\<bar> \<le> 2"
    by linarith
  from double_error_bound [OF this] have me: "\<bar>double (lo + h) - (lo + h)\<bar> \<le> 2 * u"
    by (simp only: u(4))
  have "gapMid xs k = double (lo + h)"
    using False by (simp add: gapMid_def fadd_def fdiv_def lo_def h_def w_def)
  moreover have "\<bar>double (lo + h) - (lo + hi) / 2\<bar> \<le> 4 * u"
  proof -
    from we have w1: "w - (hi - lo) \<le> u" and w2: "(hi - lo) - w \<le> u"
      by linarith+
    from he have h1: "h - w / 2 \<le> u" and h2: "w / 2 - h \<le> u"
      by linarith+
    from me have m1: "double (lo + h) - (lo + h) \<le> 2 * u"
      and m2: "(lo + h) - double (lo + h) \<le> 2 * u"
      by linarith+
    have half: "(lo + hi) / 2 = lo / 2 + hi / 2"
      by (rule add_divide_distrib)
    from w1 h1 m1 u(1) have "double (lo + h) - (lo + hi) / 2 \<le> 4 * u"
      unfolding half by linarith
    moreover from w2 h2 m2 u(1) have "(lo + hi) / 2 - double (lo + h) \<le> 4 * u"
      unfolding half by linarith
    ultimately show ?thesis
      by linarith
  qed
  ultimately show ?thesis
    by (simp only: u(3) lo_def hi_def)
qed

lemma newPosition_near_widest:
  assumes "sorted xs" and "\<forall>x \<in> set xs. 0 \<le> x \<and> x \<le> 1" and "xs \<noteq> []"
  shows "\<exists>k \<le> length xs. newPosition xs = gapMid xs k
           \<and> (\<forall>j \<le> length xs. gapWidth xs j \<le> gapWidth xs k)
           \<and> (\<forall>j < k. gapWidth xs j < gapWidth xs k)
           \<and> \<bar>newPosition xs - (gapLo xs k + gapHi xs k) / 2\<bar> \<le> 1 / 2 ^ 51
           \<and> (\<forall>j \<le> length xs. gapHi xs j - gapLo xs j \<le> gapHi xs k - gapLo xs k + 1 / 2 ^ 52)"
proof -
  define u :: real where "u = 1 / 2 ^ 53"
  have u: "1 / 2 ^ 52 = 2 * u"
    by (simp add: u_def)
  from newPosition_first_widest [OF assms(3)] obtain k where k: "k \<le> length xs"
      "newPosition xs = gapMid xs k" "\<forall>j \<le> length xs. gapWidth xs j \<le> gapWidth xs k"
      "\<forall>j < k. gapWidth xs j < gapWidth xs k"
    by blast
  have mid: "\<bar>newPosition xs - (gapLo xs k + gapHi xs k) / 2\<bar> \<le> 1 / 2 ^ 51"
    unfolding k(2) by (rule gapMid_error [OF assms(1,2) k(1) assms(3)])
  have wide: "\<forall>j \<le> length xs. gapHi xs j - gapLo xs j \<le> gapHi xs k - gapLo xs k + 1 / 2 ^ 52"
  proof (intro allI impI)
    fix j assume j: "j \<le> length xs"
    from k(3) j have "gapWidth xs j \<le> gapWidth xs k" by blast
    moreover from gapWidth_error [OF assms(1,2) j assms(3)]
    have "\<bar>gapWidth xs j - (gapHi xs j - gapLo xs j)\<bar> \<le> u"
      by (simp only: u_def)
    moreover from gapWidth_error [OF assms(1,2) k(1) assms(3)]
    have "\<bar>gapWidth xs k - (gapHi xs k - gapLo xs k)\<bar> \<le> u"
      by (simp only: u_def)
    ultimately have "gapHi xs j - gapLo xs j \<le> gapHi xs k - gapLo xs k + 2 * u"
      by linarith
    then show "gapHi xs j - gapLo xs j \<le> gapHi xs k - gapLo xs k + 1 / 2 ^ 52"
      by (simp only: u)
  qed
  from k mid wide show ?thesis by blast
qed

lemma addShelf_new:
  "shelves (addShelf now u) =
     shelves u @ [\<lparr>id' = ''s'' @ decimal now,
                   position = newPosition (sort (map position (shelves u))), divisions = 2\<rparr>]"
  by (simp add: addShelf_def Let_def)

lemma addColumn_new:
  "columns (addColumn now u) =
     columns u @ [\<lparr>id' = ''c'' @ decimal now,
                    position = newPosition (sort (map position (columns u))), divisions = 2\<rparr>]"
  by (simp add: addColumn_def Let_def)

lemma gapWidth_first: "gapWidth xs 0 = xs ! 0"
  by (simp add: gapWidth_def)

lemma gapMid_first: "gapMid xs 0 = double (xs ! 0 / 2)"
  by (simp add: gapMid_def fdiv_def)

lemma gapWidth_later: "0 < k \<Longrightarrow> gapWidth xs k = double (gapHi xs k - gapLo xs k)"
  by (simp add: gapWidth_def fsub_def)

lemma gapMid_later: "0 < k \<Longrightarrow> gapMid xs k = double (gapLo xs k + double (gapWidth xs k / 2))"
  by (simp add: gapMid_def fadd_def fdiv_def)

text \<open>
  Claim C3.  \<^verbatim>\<open>addShelf\<close> and \<^verbatim>\<open>addColumn\<close> append an element whose position is
  \<open>newPosition\<close> of the sorted existing positions.  For a sorted list of positions in
  \<open>[0, 1]\<close>, \<open>newPosition\<close> is 0.5 on the empty list; otherwise it is the midpoint of gap
  number \<open>k\<close>, counting the gap from 0 to the first position as gap 0, the gaps between
  neighbours next and the gap from the last position to 1 as the last one, where gap \<open>k\<close>
  is at least as wide as every gap and strictly wider than every gap before it (the first
  widest gap in scan order).  Widths and midpoints are the ones the program computes in
  double arithmetic: gap 0 has the width \<open>first\<close> and the midpoint \<open>first / 2\<close>, a later gap
  has the width \<open>hi - lo\<close> and the midpoint \<open>lo + width / 2\<close>, with every operation rounded.
  The position differs from the midpoint \<open>(lo + hi) / 2\<close> of gap \<open>k\<close> by at most \<open>2 ^ -51\<close>, and
  for no gap the difference of its ends exceeds that of gap \<open>k\<close> by more than \<open>2 ^ -52\<close>.
  In particular \<open>newPosition [0.5] = 0.25\<close> and \<open>newPosition [0.2, 0.8] = 0.5\<close>.
\<close>

theorem insert_position_first_widest_gap:
  assumes "sorted xs" and "\<forall>x \<in> set xs. 0 \<le> x \<and> x \<le> 1"
  shows "(xs = [] \<longrightarrow> newPosition xs = 0.5)
    \<and> (xs \<noteq> [] \<longrightarrow>
         (\<exists>k \<le> length xs. newPosition xs = gapMid xs k
            \<and> (\<forall>j \<le> length xs. gapWidth xs j \<le> gapWidth xs k)
            \<and> (\<forall>j < k. gapWidth xs j < gapWidth xs k)
            \<and> \<bar>newPosition xs - (gapLo xs k + gapHi xs k) / 2\<bar> \<le> 1 / 2 ^ 51
            \<and> (\<forall>j \<le> length xs.
                  gapHi xs j - gapLo xs j \<le> gapHi xs k - gapLo xs k + 1 / 2 ^ 52)))
    \<and> gapWidth xs 0 = xs ! 0
    \<and> gapMid xs 0 = double (xs ! 0 / 2)
    \<and> (0 < k \<longrightarrow> gapWidth xs k = double (gapHi xs k - gapLo xs k)
          \<and> gapMid xs k = double (gapLo xs k + double (gapWidth xs k / 2)))
    \<and> newPosition [0.5] = 0.25
    \<and> newPosition [double 0.2, double 0.8] = 0.5
    \<and> position (last (shelves (addShelf now u))) = newPosition (sort (map position (shelves u)))
    \<and> position (last (columns (addColumn now u))) = newPosition (sort (map position (columns u)))"
proof -
  have empty: "xs = [] \<longrightarrow> newPosition xs = 0.5"
    by (simp add: newPosition_def)
  have widest: "xs \<noteq> [] \<longrightarrow>
         (\<exists>k \<le> length xs. newPosition xs = gapMid xs k
            \<and> (\<forall>j \<le> length xs. gapWidth xs j \<le> gapWidth xs k)
            \<and> (\<forall>j < k. gapWidth xs j < gapWidth xs k)
            \<and> \<bar>newPosition xs - (gapLo xs k + gapHi xs k) / 2\<bar> \<le> 1 / 2 ^ 51
            \<and> (\<forall>j \<le> length xs.
                  gapHi xs j - gapLo xs j \<le> gapHi xs k - gapLo xs k + 1 / 2 ^ 52))"
    using newPosition_near_widest [OF assms] by blast
  have defs: "gapWidth xs 0 = xs ! 0 \<and> gapMid xs 0 = double (xs ! 0 / 2)
      \<and> (0 < k \<longrightarrow> gapWidth xs k = double (gapHi xs k - gapLo xs k)
          \<and> gapMid xs k = double (gapLo xs k + double (gapWidth xs k / 2)))"
    using gapWidth_first [of xs] gapMid_first [of xs] gapWidth_later [of k xs]
      gapMid_later [of k xs] by blast
  have one: "newPosition [0.5] = 0.25"
    by (simp add: newPosition_def Let_def fsub_def fadd_def fdiv_def gap_values)
  have two: "newPosition [double 0.2, double 0.8] = 0.5"
    by (simp add: newPosition_def Let_def gapStep_def fsub_def fadd_def fdiv_def gap_values)
  have add: "position (last (shelves (addShelf now u))) = newPosition (sort (map position (shelves u)))
    \<and> position (last (columns (addColumn now u))) = newPosition (sort (map position (columns u)))"
    by (simp add: addShelf_new addColumn_new)
  from empty widest defs one two add show ?thesis by blast
qed

text \<open>
  The theorem at \<open>[]\<close>, at \<open>[0.5]\<close> (two gaps of width 0.5: the first one wins), at
  \<open>[0.2, 0.8]\<close> (the middle gap, of width 0.6000000000000001, wins), at \<open>[0.2, 0.6]\<close> (the
  middle gap has the width 0.39999999999999997 and the last one 0.4: the last one wins
  and the position is 0.8) and at \<open>[0.22, 0.61]\<close> (the middle and the last gap both have
  the width 0.39, although the difference of the ends is larger for the last one: the
  middle one wins, and its midpoint is 0.41500000000000004).  The positions are doubles.
\<close>

theorem insert_position_first_widest_gap_witness:
  "sorted [double 0.2, double 0.8] \<and> 0 \<le> double 0.2 \<and> double 0.8 \<le> 1
   \<and> sorted [double 0.2, double 0.6] \<and> double 0.6 \<le> 1
   \<and> sorted [double 0.22, double 0.61] \<and> 0 \<le> double 0.22 \<and> double 0.61 \<le> 1
   \<and> newPosition [] = 0.5
   \<and> newPosition [0.5] = gapMid [0.5] 0 \<and> gapMid [0.5] 0 = 0.25
   \<and> gapWidth [0.5] 0 = gapWidth [0.5] 1
   \<and> newPosition [double 0.2, double 0.8] = gapMid [double 0.2, double 0.8] 1
   \<and> gapMid [double 0.2, double 0.8] 1 = 0.5
   \<and> newPosition [double 0.2, double 0.6] = gapMid [double 0.2, double 0.6] 2
   \<and> gapMid [double 0.2, double 0.6] 2 = double 0.8
   \<and> gapWidth [double 0.2, double 0.6] 1 < gapWidth [double 0.2, double 0.6] 2
   \<and> newPosition [double 0.22, double 0.61] = gapMid [double 0.22, double 0.61] 1
   \<and> gapMid [double 0.22, double 0.61] 1 = double 0.41500000000000004
   \<and> gapWidth [double 0.22, double 0.61] 1 = gapWidth [double 0.22, double 0.61] 2
   \<and> double 0.61 - double 0.22 < 1 - double 0.61
   \<and> double 0.41500000000000004 \<noteq> double 0.415"
proof -
  let ?a = "[double 0.2, double 0.8]"
  let ?b = "[double 0.2, double 0.6]"
  let ?c = "[double 0.22, double 0.61]"
  have s0: "sorted ([] :: real list)" and r0: "\<forall>x \<in> set ([] :: real list). 0 \<le> x \<and> x \<le> 1"
    by simp_all
  have s1: "sorted [0.5 :: real]" and r1: "\<forall>x \<in> set [0.5 :: real]. 0 \<le> x \<and> x \<le> 1"
    by simp_all
  have s2: "sorted ?a" and r2: "\<forall>x \<in> set ?a. 0 \<le> x \<and> x \<le> 1"
    by (simp_all add: gap_values)
  have s3: "sorted ?b" and r3: "\<forall>x \<in> set ?b. 0 \<le> x \<and> x \<le> 1"
    by (simp_all add: gap_values)
  have s4: "sorted ?c" and r4: "\<forall>x \<in> set ?c. 0 \<le> x \<and> x \<le> 1"
    by (simp_all add: gap_values)
  have w1: "gapWidth [0.5] 0 = 0.5" "gapWidth [0.5] 1 = 0.5"
    by (simp_all add: gapWidth_def gapLo_def gapHi_def fsub_def gap_values)
  have w2: "gapWidth ?a 0 < gapWidth ?a 1" "gapWidth ?a 2 < gapWidth ?a 1"
    by (simp_all add: gapWidth_def gapLo_def gapHi_def fsub_def gap_values)
  have w3: "gapWidth ?b 0 < gapWidth ?b 2" "gapWidth ?b 1 < gapWidth ?b 2"
    by (simp_all add: gapWidth_def gapLo_def gapHi_def fsub_def gap_values)
  have w4: "gapWidth ?c 0 < gapWidth ?c 1" "gapWidth ?c 1 = gapWidth ?c 2"
    by (simp_all add: gapWidth_def gapLo_def gapHi_def fsub_def gap_values)
  have e: "newPosition [] = 0.5"
    using insert_position_first_widest_gap [OF s0 r0] by blast
  from insert_position_first_widest_gap [OF s1 r1]
  obtain k where k: "k \<le> length [0.5 :: real]" "newPosition [0.5] = gapMid [0.5] k"
      "\<forall>j < k. gapWidth [0.5] j < gapWidth [0.5] k"
    by blast
  have "k = 0"
  proof (rule ccontr)
    assume "k \<noteq> 0"
    with k(1) have "k = 1" by simp
    with k(3) have "gapWidth [0.5] 0 < gapWidth [0.5] 1" by simp
    with w1 show False by simp
  qed
  with k(2) have a: "newPosition [0.5] = gapMid [0.5] 0"
    by simp
  from insert_position_first_widest_gap [OF s2 r2]
  obtain m where m: "m \<le> length ?a" "newPosition ?a = gapMid ?a m"
      "\<forall>j \<le> length ?a. gapWidth ?a j \<le> gapWidth ?a m"
    by blast
  from m(3) have "gapWidth ?a 1 \<le> gapWidth ?a m"
    by simp
  moreover from m(1) have "m = 0 \<or> m = 1 \<or> m = 2"
    by (simp add: le_Suc_eq numeral_2_eq_2)
  ultimately have "m = 1"
    using w2 by auto
  with m(2) have b: "newPosition ?a = gapMid ?a 1"
    by simp
  from insert_position_first_widest_gap [OF s3 r3]
  obtain p where p: "p \<le> length ?b" "newPosition ?b = gapMid ?b p"
      "\<forall>j \<le> length ?b. gapWidth ?b j \<le> gapWidth ?b p"
    by blast
  from p(3) have "gapWidth ?b 2 \<le> gapWidth ?b p"
    by simp
  moreover from p(1) have "p = 0 \<or> p = 1 \<or> p = 2"
    by (simp add: le_Suc_eq numeral_2_eq_2)
  ultimately have "p = 2"
    using w3 by auto
  with p(2) have c: "newPosition ?b = gapMid ?b 2"
    by simp
  from insert_position_first_widest_gap [OF s4 r4]
  obtain q where q: "q \<le> length ?c" "newPosition ?c = gapMid ?c q"
      "\<forall>j \<le> length ?c. gapWidth ?c j \<le> gapWidth ?c q" "\<forall>j < q. gapWidth ?c j < gapWidth ?c q"
    by blast
  from q(3) have "gapWidth ?c 1 \<le> gapWidth ?c q"
    by simp
  moreover have "q = 2 \<longrightarrow> gapWidth ?c 1 < gapWidth ?c 2"
  proof
    assume "q = 2"
    then have "(1::nat) < q" by simp
    with q(4) have "gapWidth ?c 1 < gapWidth ?c q" by blast
    with \<open>q = 2\<close> show "gapWidth ?c 1 < gapWidth ?c 2" by simp
  qed
  moreover from q(1) have "q = 0 \<or> q = 1 \<or> q = 2"
    by (simp add: le_Suc_eq numeral_2_eq_2)
  ultimately have "q = 1"
    using w4 by auto
  with q(2) have d: "newPosition ?c = gapMid ?c 1"
    by simp
  have mids: "gapMid [0.5] 0 = 0.25" "gapMid ?a 1 = 0.5" "gapMid ?b 2 = double 0.8"
      "gapMid ?c 1 = double 0.41500000000000004"
    by (simp_all add: gapMid_def gapWidth_def gapLo_def gapHi_def fsub_def fadd_def fdiv_def
        gap_values)
  have ex: "double 0.61 - double 0.22 < 1 - double 0.61"
      "double 0.41500000000000004 \<noteq> double 0.415"
    by (simp_all add: gap_values)
  from s2 r2 s3 r3 s4 r4 have hyps: "sorted ?a \<and> 0 \<le> double 0.2 \<and> double 0.8 \<le> 1
      \<and> sorted ?b \<and> double 0.6 \<le> 1 \<and> sorted ?c \<and> 0 \<le> double 0.22 \<and> double 0.61 \<le> 1"
    by simp
  from hyps e a b c d mids w1 w3(2) w4(2) ex show ?thesis by simp
qed

section \<open>Dimension label\<close>
























































section \<open>The exported report\<close>

lemma splitLines_nonempty: "splitLines s \<noteq> []"
  by (induction s) (auto split: list.splits)

lemma splitLines_hom: "splitLines (a @ nl # b) = splitLines a @ splitLines b"
proof (induction a)
  case Nil
  show ?case by simp
next
  case (Cons c a)
  obtain l ls where l: "splitLines a = l # ls"
    using splitLines_nonempty [of a] by (cases "splitLines a") auto
  with Cons show ?case by simp
qed

lemma splitLines_line: "oneLine a \<Longrightarrow> splitLines a = [a]"
  unfolding oneLine_def by (induction a) auto

lemma splitLines_templateRows:
  "splitLines (templateRows rows) = concat (map splitLines rows) @ [[]]"
proof (induction rows)
  case Nil
  show ?case by (simp add: templateRows_def)
next
  case (Cons r rows)
  have "templateRows (r # rows) = r @ nl # templateRows rows"
    by (simp add: templateRows_def)
  with Cons show ?case by (simp add: splitLines_hom)
qed

lemma splitLines_join:
  "\<forall>l \<in> set ls. oneLine l \<Longrightarrow> splitLines (join [nl] ls) = (if ls = [] then [[]] else ls)"
proof (induction "[nl]" ls rule: join.induct)
  case 1
  show ?case by simp
next
  case (2 x)
  then show ?case by (simp add: splitLines_line)
next
  case (3 x y ys)
  then show ?case by (simp add: splitLines_hom splitLines_line)
qed

lemma oneLine_Nil: "oneLine []"
  by (simp add: oneLine_def)

lemma oneLine_Cons: "oneLine (c # s) \<longleftrightarrow> c \<noteq> CHR 0x0A \<and> oneLine s"
  by (auto simp: oneLine_def nl_def)

lemma oneLine_append: "oneLine (a @ b) \<longleftrightarrow> oneLine a \<and> oneLine b"
  by (auto simp: oneLine_def)

lemma oneLine_digit: "d < 10 \<Longrightarrow> oneLine [digit d]"
proof -
  assume "d < 10"
  then have "digit d \<in> set ''0123456789''"
    unfolding digit_def by (intro nth_mem) simp
  moreover have "CHR 0x0A \<notin> set ''0123456789''"
    by simp
  ultimately have "digit d \<noteq> CHR 0x0A" by metis
  then show ?thesis by (simp add: oneLine_Cons oneLine_Nil)
qed

lemma oneLine_decimal: "oneLine (decimal n)"
proof (induction n rule: decimal.induct)
  case (1 n)
  show ?case
  proof (cases "n < 10")
    case True
    then show ?thesis
      using oneLine_digit [of n] by (subst decimal.simps) simp
  next
    case False
    with 1 have "oneLine (decimal (n div 10))" by simp
    moreover have "oneLine [digit (n mod 10)]"
      by (rule oneLine_digit) simp
    ultimately show ?thesis
      using False by (subst decimal.simps) (simp add: oneLine_append)
  qed
qed

lemma oneLine_numberToString: "oneLine (numberToString i)"
  by (simp add: numberToString_def oneLine_decimal oneLine_Cons)

lemma oneLine_take_drop: "oneLine m \<Longrightarrow> oneLine (take j m) \<and> oneLine (drop j m)"
  by (auto simp: oneLine_def dest: in_set_takeD in_set_dropD)

lemma oneLine_replicate_zero: "oneLine (replicate k CHR ''0'')"
  by (simp add: oneLine_def nl_def)

lemma oneLine_toFixedMagnitude:
  assumes "\<forall>x. oneLine (toStringLarge x)"
  shows "oneLine (toFixedMagnitude toStringLarge x f)"
  using assms unfolding toFixedMagnitude_def
  by (simp add: Let_def oneLine_append oneLine_Cons oneLine_Nil oneLine_decimal
      oneLine_take_drop oneLine_replicate_zero)

lemma oneLine_toFixed:
  assumes "\<forall>x. oneLine (toStringLarge x)"
  shows "oneLine (toFixed toStringLarge x f)"
  using assms
  by (simp add: toFixed_def oneLine_toFixedMagnitude oneLine_Cons)

lemma oneLine_shelfRow:
  "\<forall>x. oneLine (toStringLarge x) \<Longrightarrow> oneLine (shelfRow toStringLarge p)"
  by (cases p)
     (simp add: shelfRow_def oneLine_append oneLine_Cons oneLine_Nil oneLine_toFixed
        oneLine_decimal oneLine_numberToString)

lemma oneLine_columnRow:
  "\<forall>x. oneLine (toStringLarge x) \<Longrightarrow> oneLine (columnRow toStringLarge p)"
  by (cases p)
     (simp add: columnRow_def oneLine_append oneLine_Cons oneLine_Nil oneLine_toFixed
        oneLine_decimal oneLine_numberToString)

lemma decimal_small: "n < 10 \<Longrightarrow> decimal n = [digit n]"
  by (subst decimal.simps) simp

lemma decimal_large: "10 \<le> n \<Longrightarrow> decimal n = decimal (n div 10) @ [digit (n mod 10)]"
  by (subst decimal.simps) simp

lemma decimal_nonempty: "decimal n \<noteq> []"
  by (subst decimal.simps) simp

lemma toFixed_0:
  "0 \<le> x \<Longrightarrow> x < 10 ^ 21 \<Longrightarrow> toFixed toStringLarge x 0 = decimal (nat (round x))"
  by (simp add: toFixed_def toFixedMagnitude_def round_def Let_def)

lemma toFixed_2:
  assumes "0 \<le> x" and "x < 10 ^ 21"
  shows "toFixed toStringLarge x 2 =
     (let n = nat (round (x * 100))
      in decimal (n div 100) @ ''.'' @ [digit (n div 10 mod 10), digit (n mod 10)])"
proof -
  define n where "n = nat (round (x * 100))"
  have n': "nat \<lfloor>x * 100 + 1 / 2\<rfloor> = n"
    by (simp add: n_def round_def)
  have zero: "digit 0 = CHR ''0''"
    by (simp add: digit_def)
  have fmt: "(let m = decimal n; k = length m;
          m = (if k \<le> 2 then replicate (2 + 1 - k) CHR ''0'' @ m else m);
          k = (if k \<le> 2 then 2 + 1 else k)
      in take (k - 2) m @ ''.'' @ drop (k - 2) m)
    = decimal (n div 100) @ ''.'' @ [digit (n div 10 mod 10), digit (n mod 10)]"
  proof -
    consider "n < 10" | "10 \<le> n" "n < 100" | "100 \<le> n"
      by linarith
    then show ?thesis
    proof cases
      case 1
      then show ?thesis
        by (simp add: decimal_small zero numeral_2_eq_2)
    next
      case 2
      then have "n div 10 < 10" by simp
      with 2 show ?thesis
        by (simp add: decimal_large decimal_small zero)
    next
      case 3
      then have a: "10 \<le> n" and b: "10 \<le> n div 10"
        by simp_all
      have c: "n div 10 div 10 = n div 100"
        by (simp add: div_mult2_eq [symmetric])
      have "decimal n = decimal (n div 100) @ [digit (n div 10 mod 10), digit (n mod 10)]"
        by (simp add: decimal_large [OF a] decimal_large [OF b] c)
      then show ?thesis
        by (simp add: Let_def decimal_nonempty)
    qed
  qed
  from assms have "toFixed toStringLarge x 2 =
     (let m = decimal n; k = length m;
          m = (if k \<le> 2 then replicate (2 + 1 - k) CHR ''0'' @ m else m);
          k = (if k \<le> 2 then 2 + 1 else k)
      in take (k - 2) m @ ''.'' @ drop (k - 2) m)"
    by (simp add: toFixed_def toFixedMagnitude_def Let_def n')
  also note fmt
  finally show ?thesis
    by (simp add: n_def Let_def)
qed


lemma splitLines_shelfRows:
  "\<forall>x. oneLine (toStringLarge x) \<Longrightarrow>
     splitLines (join [nl] (map (shelfRow toStringLarge) ps)) =
       (if ps = [] then [[]] else map (shelfRow toStringLarge) ps)"
  using splitLines_join [of "map (shelfRow toStringLarge) ps"]
  by (simp add: oneLine_shelfRow)

lemma splitLines_columnRows:
  "\<forall>x. oneLine (toStringLarge x) \<Longrightarrow>
     splitLines (join [nl] (map (columnRow toStringLarge) ps)) =
       (if ps = [] then [[]] else map (columnRow toStringLarge) ps)"
  using splitLines_join [of "map (columnRow toStringLarge) ps"]
  by (simp add: oneLine_columnRow)

lemma enumerate_empty: "enumerate 0 xs = [] \<longleftrightarrow> xs = []"
  by (cases xs) simp_all


text \<open>
  The doubles of the decimal literals that the closed statements about the report use,
  and the products of the positions with 100.
\<close>

lemma report_value_1: "double (3 / 200) = 1080863910568919 / 72057594037927936"
  by (rule double_near [where s = 59 and n = 8646911284551352, THEN trans]) simp_all

lemma report_value_2: "double (1 / 20) = 3602879701896397 / 72057594037927936"
  by (rule double_near [where s = 57 and n = 7205759403792794, THEN trans]) simp_all

lemma report_value_3: "double (33 / 100) = 5944751508129055 / 18014398509481984"
  by (rule double_near [where s = 54 and n = 5944751508129055, THEN trans]) simp_all

lemma report_value_4: "double (23 / 40) = 2589569785738035 / 4503599627370496"
  by (rule double_near [where s = 53 and n = 5179139571476070, THEN trans]) simp_all

lemma report_value_5: "double (33 / 50) = 5944751508129055 / 9007199254740992"
  by (rule double_near [where s = 53 and n = 5944751508129055, THEN trans]) simp_all

lemma report_value_6: "double (27021597764222975 / 18014398509481984) = 3 / 2"
  by (rule double_near [where s = 52 and n = 6755399441055744, THEN trans]) simp_all

lemma report_value_7: "double (148618787703226375 / 4503599627370496) = 33"
  by (rule double_near [where s = 47 and n = 4644337115725824, THEN trans]) simp_all

lemma report_value_8: "double (50) = 50"
  by (rule double_near [where s = 47 and n = 7036874417766400, THEN trans]) simp_all

lemma report_value_9: "double (64739244643450875 / 1125899906842624) = 8092405580431359 / 140737488355328"
  by (rule double_near [where s = 47 and n = 8092405580431359, THEN trans]) simp_all

lemma report_value_10: "double (148618787703226375 / 2251799813685248) = 66"
  by (rule double_near [where s = 46 and n = 4644337115725824, THEN trans]) simp_all

lemmas report_values = double_zero double_minus
  report_value_1 report_value_2 report_value_3 report_value_4 report_value_5 report_value_6
  report_value_7 report_value_8 report_value_9 report_value_10

text \<open>
  Claim C9, as stated: the report lists the dimensions converted to millimeters.  For the
  initial unit (3 by 2 by 1, thickness 0.05, the basic preset, material wood) the report
  reads as follows; the width line is \<open>Width: 3.00 units\<close>, and the millimeter value 3000 of
  the width occurs nowhere in the text.
\<close>

theorem design_spec_units_counterexample:
  "splitLines (createDesignSpec (\<lambda>x. []) ''11/2/2026, 9:50:00 AM'' 3 2 1 0.05
       [\<lparr>id' = ''s1'', position = 0.5, divisions = 2\<rparr>]
       [\<lparr>id' = ''c1'', position = 0.5, divisions = 1\<rparr>] ''wood'')
     = [''Shelving Unit Design Specifications'',
        ''============================='',
        [],
        ''DIMENSIONS'',
        ''Width: 3.00 units'',
        ''Height: 2.00 units'',
        ''Depth: 1.00 units'',
        ''Material thickness: 0.05 units'',
        ''Material: wood'',
        [],
        ''SHELVES (1)'',
        ''Shelf 1: Position 50% from bottom, 2 divisions'',
        [],
        ''COLUMNS (1)'',
        ''Column 1: Position 50% from left, 1 divisions'',
        [],
        ''Generated: 11/2/2026, 9:50:00 AM'',
        []]
   \<and> Math_round (3 * UNIT_TO_MM) = 3000
   \<and> \<not> occursIn ''3000'' (createDesignSpec (\<lambda>x. []) ''11/2/2026, 9:50:00 AM'' 3 2 1 0.05
       [\<lparr>id' = ''s1'', position = 0.5, divisions = 2\<rparr>]
       [\<lparr>id' = ''c1'', position = 0.5, divisions = 1\<rparr>] ''wood'')"
proof -
  let ?rows = "[''Shelving Unit Design Specifications'',
        ''============================='',
        [],
        ''DIMENSIONS'',
        ''Width: 3.00 units'',
        ''Height: 2.00 units'',
        ''Depth: 1.00 units'',
        ''Material thickness: 0.05 units'',
        ''Material: wood'',
        [],
        ''SHELVES (1)'',
        ''Shelf 1: Position 50% from bottom, 2 divisions'',
        [],
        ''COLUMNS (1)'',
        ''Column 1: Position 50% from left, 1 divisions'',
        [],
        ''Generated: 11/2/2026, 9:50:00 AM'']"
  have fx: "toFixed (\<lambda>x. []) 3 2 = ''3.00''" "toFixed (\<lambda>x. []) 2 2 = ''2.00''"
      "toFixed (\<lambda>x. []) 1 2 = ''1.00''" "toFixed (\<lambda>x. []) (1 / 20) 2 = ''0.05''"
      "toFixed (\<lambda>x. []) 50 0 = ''50''"
    by (simp_all add: toFixed_def toFixedMagnitude_def Let_def decimal.simps digit_def)
  have dc: "decimal (Suc 0) = ''1''" "numberToString 2 = ''2''" "numberToString 1 = ''1''"
    by (simp_all add: numberToString_def decimal.simps digit_def)
  have report: "createDesignSpec (\<lambda>x. []) ''11/2/2026, 9:50:00 AM'' 3 2 1 0.05
       [\<lparr>id' = ''s1'', position = 0.5, divisions = 2\<rparr>]
       [\<lparr>id' = ''c1'', position = 0.5, divisions = 1\<rparr>] ''wood''
     = templateRows ?rows"
    by (simp add: createDesignSpec_def shelfRow_def columnRow_def fmul_def report_values
        enumerate_simps fx dc)
  have lines: "splitLines (templateRows ?rows) = ?rows @ [[]]"
    unfolding splitLines_templateRows
    by (simp add: splitLines_line oneLine_Cons oneLine_Nil del: splitLines.simps)
  have mm: "Math_round (3 * UNIT_TO_MM) = 3000"
    by (simp add: Math_round_def UNIT_TO_MM_def)
  have absent: "\<not> occursIn ''3000'' (templateRows ?rows)"
    by (simp add: templateRows_def nl_def)
  from lines mm absent show ?thesis
    unfolding report by simp
qed

text \<open>
  Claim C9, amended.  The report has the following lines, where the text that stands for
  large numbers, the material name and the timestamp contain no line break: a title and a
  rule; the heading \<open>DIMENSIONS\<close>; the width, height, depth and material thickness, each
  printed by \<open>toFixed 2\<close> and followed by \<open>units\<close> (abstract units with two decimals, with
  no conversion to millimeters); the material name; the number of shelves and one line per
  shelf (an empty line when there is none) with its number, its position times 100, the
  product being a double, printed by \<open>toFixed 0\<close> as a percentage, and its division count;
  the same for the columns; and the
  line \<open>Generated:\<close> with the timestamp.  For \<open>x\<close> from 0 up to, but excluding, \<open>10 ^ 21\<close>, \<open>toFixed 2\<close> prints
  \<open>round (100 * x)\<close> with a point before the last two digits, and \<open>toFixed 0\<close> prints
  \<open>round x\<close>.
\<close>

theorem design_spec_lines:
  assumes "\<forall>x. oneLine (toStringLarge x)" and "oneLine material'" and "oneLine localeString"
  shows "splitLines (createDesignSpec toStringLarge localeString width' height' depth' thickness'
            shelves' columns' material')
     = [''Shelving Unit Design Specifications'',
        ''============================='',
        [],
        ''DIMENSIONS'',
        ''Width: '' @ toFixed toStringLarge width' 2 @ '' units'',
        ''Height: '' @ toFixed toStringLarge height' 2 @ '' units'',
        ''Depth: '' @ toFixed toStringLarge depth' 2 @ '' units'',
        ''Material thickness: '' @ toFixed toStringLarge thickness' 2 @ '' units'',
        ''Material: '' @ material',
        [],
        ''SHELVES ('' @ decimal (length shelves') @ '')'']
       @ (if shelves' = [] then [[]] else map (shelfRow toStringLarge) (enumerate 0 shelves'))
       @ [[], ''COLUMNS ('' @ decimal (length columns') @ '')'']
       @ (if columns' = [] then [[]] else map (columnRow toStringLarge) (enumerate 0 columns'))
       @ [[], ''Generated: '' @ localeString, []]
    \<and> (i < length shelves' \<longrightarrow>
          shelfRow toStringLarge (enumerate 0 shelves' ! i)
            = ''Shelf '' @ decimal (i + 1) @ '': Position ''
                @ toFixed toStringLarge (double (position (shelves' ! i) * 100)) 0 @ ''% from bottom, ''
                @ numberToString (divisions (shelves' ! i)) @ '' divisions'')
    \<and> (i < length columns' \<longrightarrow>
          columnRow toStringLarge (enumerate 0 columns' ! i)
            = ''Column '' @ decimal (i + 1) @ '': Position ''
                @ toFixed toStringLarge (double (position (columns' ! i) * 100)) 0 @ ''% from left, ''
                @ numberToString (divisions (columns' ! i)) @ '' divisions'')
    \<and> (0 \<le> x \<and> x < 10 ^ 21 \<longrightarrow>
          toFixed toStringLarge x 2
            = decimal (nat (round (x * 100)) div 100) @ ''.''
                @ [digit (nat (round (x * 100)) div 10 mod 10), digit (nat (round (x * 100)) mod 10)]
          \<and> toFixed toStringLarge x 0 = decimal (nat (round x)))"
proof -
  have rows: "splitLines (createDesignSpec toStringLarge localeString width' height' depth' thickness'
            shelves' columns' material')
     = [''Shelving Unit Design Specifications'',
        ''============================='',
        [],
        ''DIMENSIONS'',
        ''Width: '' @ toFixed toStringLarge width' 2 @ '' units'',
        ''Height: '' @ toFixed toStringLarge height' 2 @ '' units'',
        ''Depth: '' @ toFixed toStringLarge depth' 2 @ '' units'',
        ''Material thickness: '' @ toFixed toStringLarge thickness' 2 @ '' units'',
        ''Material: '' @ material',
        [],
        ''SHELVES ('' @ decimal (length shelves') @ '')'']
       @ (if shelves' = [] then [[]] else map (shelfRow toStringLarge) (enumerate 0 shelves'))
       @ [[], ''COLUMNS ('' @ decimal (length columns') @ '')'']
       @ (if columns' = [] then [[]] else map (columnRow toStringLarge) (enumerate 0 columns'))
       @ [[], ''Generated: '' @ localeString, []]"
    unfolding createDesignSpec_def splitLines_templateRows
    using assms
    by (simp add: splitLines_line splitLines_shelfRows splitLines_columnRows oneLine_append
        oneLine_Cons oneLine_Nil oneLine_toFixed oneLine_decimal enumerate_empty
        del: splitLines.simps)
  have srow: "i < length shelves' \<longrightarrow>
          shelfRow toStringLarge (enumerate 0 shelves' ! i)
            = ''Shelf '' @ decimal (i + 1) @ '': Position ''
                @ toFixed toStringLarge (double (position (shelves' ! i) * 100)) 0 @ ''% from bottom, ''
                @ numberToString (divisions (shelves' ! i)) @ '' divisions''"
    by (simp add: shelfRow_def fmul_def nth_enumerate_eq)
  have crow: "i < length columns' \<longrightarrow>
          columnRow toStringLarge (enumerate 0 columns' ! i)
            = ''Column '' @ decimal (i + 1) @ '': Position ''
                @ toFixed toStringLarge (double (position (columns' ! i) * 100)) 0 @ ''% from left, ''
                @ numberToString (divisions (columns' ! i)) @ '' divisions''"
    by (simp add: columnRow_def fmul_def nth_enumerate_eq)
  have fixed: "0 \<le> x \<and> x < 10 ^ 21 \<longrightarrow>
          toFixed toStringLarge x 2
            = decimal (nat (round (x * 100)) div 100) @ ''.''
                @ [digit (nat (round (x * 100)) div 10 mod 10), digit (nat (round (x * 100)) mod 10)]
          \<and> toFixed toStringLarge x 0 = decimal (nat (round x))"
    using toFixed_2 [of x toStringLarge] toFixed_0 [of x toStringLarge]
    by (simp add: Let_def)
  from rows srow crow fixed show ?thesis by blast
qed


text \<open>
  The report of the unit 3 by 2 by 1 with thickness 0.05, material oak and the layout
  \<^verbatim>\<open>LAYOUTS.display\<close>, the numbers being doubles.  A shelf at 0.575 is printed as 57%: the
  product is 57.49999999999999.  A shelf at 0.015 is printed as 2%: the position is below
  0.015, and the product is rounded to 1.5.
\<close>

theorem design_spec_lines_witness:
  "oneLine ''oak'' \<and> oneLine ''11/2/2026, 9:50:00 AM''
   \<and> splitLines (createDesignSpec (\<lambda>x. []) ''11/2/2026, 9:50:00 AM'' 3 2 1 (double 0.05)
         [\<lparr>id' = ''s1'', position = double 0.33, divisions = 2\<rparr>,
          \<lparr>id' = ''s2'', position = double 0.66, divisions = 4\<rparr>]
         [\<lparr>id' = ''c1'', position = double 0.33, divisions = 2\<rparr>,
          \<lparr>id' = ''c2'', position = double 0.66, divisions = 2\<rparr>] ''oak'')
     = [''Shelving Unit Design Specifications'',
        ''============================='',
        [],
        ''DIMENSIONS'',
        ''Width: 3.00 units'',
        ''Height: 2.00 units'',
        ''Depth: 1.00 units'',
        ''Material thickness: 0.05 units'',
        ''Material: oak'',
        [],
        ''SHELVES (2)'',
        ''Shelf 1: Position 33% from bottom, 2 divisions'',
        ''Shelf 2: Position 66% from bottom, 4 divisions'',
        [],
        ''COLUMNS (2)'',
        ''Column 1: Position 33% from left, 2 divisions'',
        ''Column 2: Position 66% from left, 2 divisions'',
        [],
        ''Generated: 11/2/2026, 9:50:00 AM'',
        []]
   \<and> shelfRow (\<lambda>x. []) (0, \<lparr>id' = ''s1'', position = double 0.33, divisions = 2\<rparr>)
     = ''Shelf 1: Position 33% from bottom, 2 divisions''
   \<and> columnRow (\<lambda>x. []) (0, \<lparr>id' = ''c1'', position = double 0.33, divisions = 2\<rparr>)
     = ''Column 1: Position 33% from left, 2 divisions''
   \<and> toFixed (\<lambda>x. []) (double 0.05) 2 = ''0.05''
   \<and> toFixed (\<lambda>x. []) 33 0 = ''33''
   \<and> shelfRow (\<lambda>x. []) (2, \<lparr>id' = ''s3'', position = double 0.575, divisions = 1\<rparr>)
     = ''Shelf 3: Position 57% from bottom, 1 divisions''
   \<and> shelfRow (\<lambda>x. []) (3, \<lparr>id' = ''s4'', position = double 0.015, divisions = 1\<rparr>)
     = ''Shelf 4: Position 2% from bottom, 1 divisions''
   \<and> round (double 0.015 * 100) = 1"
proof -
  let ?shelves = "[\<lparr>id' = ''s1'', position = double 0.33, divisions = 2\<rparr>,
          \<lparr>id' = ''s2'', position = double 0.66, divisions = 4\<rparr>]"
  let ?columns = "[\<lparr>id' = ''c1'', position = double 0.33, divisions = 2\<rparr>,
          \<lparr>id' = ''c2'', position = double 0.66, divisions = 2\<rparr>]"
  have h1: "\<forall>x::real. oneLine ((\<lambda>x. []) x)"
    by (simp add: oneLine_Nil)
  have h2: "oneLine ''oak''" and h3: "oneLine ''11/2/2026, 9:50:00 AM''"
    by (simp_all add: oneLine_Cons oneLine_Nil)
  note T = design_spec_lines [where toStringLarge = "\<lambda>x. []" and material' = "''oak''"
      and localeString = "''11/2/2026, 9:50:00 AM''" and width' = 3 and height' = 2
      and depth' = 1 and thickness' = "double 0.05" and shelves' = ?shelves and columns' = ?columns
      and i = 0, OF h1 h2 h3]
  have fx: "toFixed (\<lambda>x. []) 3 2 = ''3.00''" "toFixed (\<lambda>x. []) 2 2 = ''2.00''"
      "toFixed (\<lambda>x. []) 1 2 = ''1.00''" "toFixed (\<lambda>x. []) (double 0.05) 2 = ''0.05''"
      "toFixed (\<lambda>x. []) (3602879701896397 / 72057594037927936) 2 = ''0.05''"
      "toFixed (\<lambda>x. []) 33 0 = ''33''" "toFixed (\<lambda>x. []) 66 0 = ''66''"
    by (simp_all add: toFixed_def toFixedMagnitude_def Let_def decimal.simps digit_def
        report_values)
  have dc: "decimal (Suc 0) = ''1''" "decimal 2 = ''2''" "decimal (Suc (Suc 0)) = ''2''"
      "numberToString 2 = ''2''" "numberToString 4 = ''4''"
    by (simp_all add: numberToString_def decimal.simps digit_def)
  have lines: "splitLines (createDesignSpec (\<lambda>x. []) ''11/2/2026, 9:50:00 AM'' 3 2 1 (double 0.05)
         ?shelves ?columns ''oak'')
     = [''Shelving Unit Design Specifications'',
        ''============================='',
        [],
        ''DIMENSIONS'',
        ''Width: 3.00 units'',
        ''Height: 2.00 units'',
        ''Depth: 1.00 units'',
        ''Material thickness: 0.05 units'',
        ''Material: oak'',
        [],
        ''SHELVES (2)'',
        ''Shelf 1: Position 33% from bottom, 2 divisions'',
        ''Shelf 2: Position 66% from bottom, 4 divisions'',
        [],
        ''COLUMNS (2)'',
        ''Column 1: Position 33% from left, 2 divisions'',
        ''Column 2: Position 66% from left, 2 divisions'',
        [],
        ''Generated: 11/2/2026, 9:50:00 AM'',
        []]"
    unfolding T [THEN conjunct1]
    by (simp add: shelfRow_def columnRow_def fmul_def report_values enumerate_simps fx dc
        del: splitLines.simps)
  have i0: "0 < length ?shelves" "0 < length ?columns"
    by simp_all
  from T [THEN conjunct2, THEN conjunct1] i0(1)
  have "shelfRow (\<lambda>x. []) (enumerate 0 ?shelves ! 0)
      = ''Shelf '' @ decimal (0 + 1) @ '': Position ''
          @ toFixed (\<lambda>x. []) (double (position (?shelves ! 0) * 100)) 0 @ ''% from bottom, ''
          @ numberToString (divisions (?shelves ! 0)) @ '' divisions''"
    by (rule mp)
  then have srow: "shelfRow (\<lambda>x. []) (0, \<lparr>id' = ''s1'', position = double 0.33, divisions = 2\<rparr>)
     = ''Shelf 1: Position 33% from bottom, 2 divisions''"
    by (simp add: enumerate_simps report_values fx dc)
  from T [THEN conjunct2, THEN conjunct2, THEN conjunct1] i0(2)
  have "columnRow (\<lambda>x. []) (enumerate 0 ?columns ! 0)
      = ''Column '' @ decimal (0 + 1) @ '': Position ''
          @ toFixed (\<lambda>x. []) (double (position (?columns ! 0) * 100)) 0 @ ''% from left, ''
          @ numberToString (divisions (?columns ! 0)) @ '' divisions''"
    by (rule mp)
  then have crow: "columnRow (\<lambda>x. []) (0, \<lparr>id' = ''c1'', position = double 0.33, divisions = 2\<rparr>)
     = ''Column 1: Position 33% from left, 2 divisions''"
    by (simp add: enumerate_simps report_values fx dc)
  have r: "0 \<le> double 0.05 \<and> double 0.05 < 10 ^ 21"
    by (simp add: report_values)
  from T [where x = "double 0.05"] r
  have "toFixed (\<lambda>x. []) (double 0.05) 2
            = decimal (nat (round (double 0.05 * 100)) div 100) @ ''.''
                @ [digit (nat (round (double 0.05 * 100)) div 10 mod 10),
                   digit (nat (round (double 0.05 * 100)) mod 10)]"
    by blast
  then have two: "toFixed (\<lambda>x. []) (double 0.05) 2 = ''0.05''"
    by (simp add: report_values round_def decimal.simps digit_def)
  have r': "(0::real) \<le> 33 \<and> (33 :: real) < 10 ^ 21"
    by simp
  from T [where x = 33] r'
  have "toFixed (\<lambda>x. []) 33 0 = decimal (nat (round (33 :: real)))"
    by blast
  then have zero: "toFixed (\<lambda>x. []) 33 0 = ''33''"
    by (simp add: decimal.simps digit_def)
  have dc': "decimal 3 = ''3''" "decimal 4 = ''4''" "numberToString 1 = ''1''"
    by (simp_all add: numberToString_def decimal.simps digit_def)
  have s3: "shelfRow (\<lambda>x. []) (2, \<lparr>id' = ''s3'', position = double 0.575, divisions = 1\<rparr>)
     = ''Shelf 3: Position 57% from bottom, 1 divisions''"
    by (simp add: shelfRow_def fmul_def report_values toFixed_def toFixedMagnitude_def Let_def
        decimal.simps digit_def dc')
  have s4: "shelfRow (\<lambda>x. []) (3, \<lparr>id' = ''s4'', position = double 0.015, divisions = 1\<rparr>)
     = ''Shelf 4: Position 2% from bottom, 1 divisions''"
    by (simp add: shelfRow_def fmul_def report_values toFixed_def toFixedMagnitude_def Let_def
        decimal.simps digit_def dc')
  have ex: "round (double 0.015 * 100) = 1"
    by (simp add: report_values round_def)
  from h2 h3 lines srow crow two zero s3 s4 ex show ?thesis
    by (simp only: simp_thms)
qed

end
